theory Spec2Isabelle
  imports Complex_Main "HOL-Library.Multiset"
begin

section \<open>Errors\<close>

text \<open>
  Every exception the modelled code can raise is a value. \<open>TypeError\<close> and \<open>ValueError\<close>
  are the library's own exception classes (\<^verbatim>\<open>opytimizer.utils.exception\<close>), carrying the
  message of the \<^verbatim>\<open>raise\<close>; \<open>BuiltinTypeError\<close> is the interpreter's error for a call whose
  arguments do not fit the signature; \<open>AttributeError\<close> carries the name that was not found.
  \<open>ZeroDivisionError\<close> marks a division whose divisor is zero.
\<close>

datatype error =
    TypeError string
  | ValueError string
  | NotImplementedError
  | BuiltinTypeError
  | AttributeError string
  | ZeroDivisionError
  | IndexError

section \<open>Objects and arrays\<close>

text \<open>
  Agents are Python objects and positions are numpy arrays: both are reached through
  references, so that an assignment to an attribute, a rebinding of a local name and a copy
  are different things. The store maps addresses to agent objects and to arrays;
  \<open>next_addr\<close> is the first address not handed out yet. A position has the shape
  \<^verbatim>\<open>(n_variables, n_dimensions)\<close>: a list of rows. Floats are modelled by reals.
\<close>

type_synonym addr = nat

type_synonym ndarray = "real list list"

text \<open>
  The \<^verbatim>\<open>Agent\<close> class is not among the sources; the fields are the attributes the
  optimizers read and write (\<^verbatim>\<open>position\<close>, \<^verbatim>\<open>fit\<close>) and the bounds the agent keeps
  for its own clipping (\<^verbatim>\<open>lb\<close>, \<^verbatim>\<open>ub\<close>, one entry per variable).
\<close>

record agent =
  position :: addr
  fit :: real
  lb :: "real list"
  ub :: "real list"

record store =
  agents_of :: "addr \<Rightarrow> agent"
  arrays_of :: "addr \<Rightarrow> ndarray"
  next_addr :: addr

text \<open>
  The \<^verbatim>\<open>Space\<close> object as the \<^verbatim>\<open>run\<close> methods use it: references to its agents, a
  reference to its best agent and its sizes. (\<open>space_lb\<close> and \<open>space_ub\<close> are the
  attributes \<^verbatim>\<open>space.lb\<close> and \<^verbatim>\<open>space.ub\<close>.)
\<close>

record space =
  agents :: "addr list"
  best_agent :: addr
  n_agents :: nat
  n_variables :: nat
  n_dimensions :: nat
  n_iterations :: int
  space_lb :: "real list"
  space_ub :: "real list"

definition new_array :: "ndarray \<Rightarrow> store \<Rightarrow> addr \<times> store" where
  "new_array v s =
     (next_addr s, s\<lparr>arrays_of := (arrays_of s)(next_addr s := v), next_addr := Suc (next_addr s)\<rparr>)"

definition new_agent :: "agent \<Rightarrow> store \<Rightarrow> addr \<times> store" where
  "new_agent x s =
     (next_addr s, s\<lparr>agents_of := (agents_of s)(next_addr s := x), next_addr := Suc (next_addr s)\<rparr>)"

definition get_position :: "store \<Rightarrow> addr \<Rightarrow> ndarray" where
  "get_position s a = arrays_of s (position (agents_of s a))"

definition get_fit :: "store \<Rightarrow> addr \<Rightarrow> real" where
  "get_fit s a = fit (agents_of s a)"

text \<open>\<^verbatim>\<open>agent.position = v\<close> for a newly built array \<open>v\<close>: the array is allocated and the attribute
  is pointed at it; the array the attribute referred to before is left as it is.\<close>

definition set_position :: "addr \<Rightarrow> ndarray \<Rightarrow> store \<Rightarrow> store" where
  "set_position a v s =
     (let (n, s1) = new_array v s
      in s1\<lparr>agents_of := (agents_of s1)(a := (agents_of s1 a)\<lparr>position := n\<rparr>)\<rparr>)"

text \<open>\<^verbatim>\<open>agent.fit = x\<close>.\<close>

definition set_fit :: "addr \<Rightarrow> real \<Rightarrow> store \<Rightarrow> store" where
  "set_fit a x s = s\<lparr>agents_of := (agents_of s)(a := (agents_of s a)\<lparr>fit := x\<rparr>)\<rparr>"

text \<open>\<^verbatim>\<open>copy.deepcopy(agent)\<close>: a new agent object whose position is a new array with the same
  contents.\<close>

definition deepcopy_agent :: "addr \<Rightarrow> store \<Rightarrow> addr \<times> store" where
  "deepcopy_agent a s =
     (let (n, s1) = new_array (get_position s a) s
      in new_agent ((agents_of s1 a)\<lparr>position := n\<rparr>) s1)"

subsection \<open>Array arithmetic\<close>

text \<open>Element-wise numpy arithmetic on arrays of one shape, and with a scalar.\<close>

definition nd_add :: "ndarray \<Rightarrow> ndarray \<Rightarrow> ndarray" where
  "nd_add x y = map2 (map2 (+)) x y"

definition nd_sub :: "ndarray \<Rightarrow> ndarray \<Rightarrow> ndarray" where
  "nd_sub x y = map2 (map2 (-)) x y"

definition nd_scale :: "real \<Rightarrow> ndarray \<Rightarrow> ndarray" where
  "nd_scale c x = map (map (\<lambda>v. c * v)) x"

definition nd_shift :: "ndarray \<Rightarrow> real \<Rightarrow> ndarray" where
  "nd_shift x c = map (map (\<lambda>v. v + c)) x"

definition nd_zeros :: "nat \<Rightarrow> nat \<Rightarrow> ndarray" where
  "nd_zeros n_var n_dim = replicate n_var (replicate n_dim 0)"

section \<open>The optimizer base class: evaluation\<close>

text \<open>
  The body of the loop of \<^verbatim>\<open>Optimizer._evaluate\<close> for one agent \<open>a\<close>, with \<open>b\<close> the object
  \<^verbatim>\<open>space.best_agent\<close>:
  \<^verbatim>\<open>
    agent.fit = function(agent.position)
    if agent.fit < space.best_agent.fit:
        space.best_agent.position = copy.deepcopy(agent.position)
        space.best_agent.fit = copy.deepcopy(agent.fit)
  \<close>
\<close>

definition evaluate_agent :: "(ndarray \<Rightarrow> real) \<Rightarrow> addr \<Rightarrow> addr \<Rightarrow> store \<Rightarrow> store" where
  "evaluate_agent function b a s =
     (let s1 = set_fit a (function (get_position s a)) s
      in if get_fit s1 a < get_fit s1 b
         then (let s2 = set_position b (get_position s1 a) s1
               in set_fit b (get_fit s2 a) s2)
         else s1)"

definition evaluate_body :: "space \<Rightarrow> (ndarray \<Rightarrow> real) \<Rightarrow> store \<Rightarrow> store" where
  "evaluate_body sp function s = fold (evaluate_agent function (best_agent sp)) (agents sp) s"

text \<open>
  Modelled from the spec: the decorator \<^verbatim>\<open>opytimizer.utils.decorator.pre_evaluate\<close> is not
  among the sources. The spec has it invoke the hook, when one is given, before the decorated
  function runs. The hook is a transformation of the store.
\<close>

definition pre_evaluate :: "(store \<Rightarrow> store) option \<Rightarrow> store \<Rightarrow> store" where
  "pre_evaluate hook s = (case hook of None \<Rightarrow> s | Some k \<Rightarrow> k s)"

definition Optimizer_evaluate ::
  "(store \<Rightarrow> store) option \<Rightarrow> space \<Rightarrow> (ndarray \<Rightarrow> real) \<Rightarrow> store \<Rightarrow> store" where
  "Optimizer_evaluate hook sp function s = evaluate_body sp function (pre_evaluate hook s)"

section \<open>Bound clipping and history\<close>

text \<open>
  Modelled from the spec: \<^verbatim>\<open>Agent.clip_by_bound\<close> and \<^verbatim>\<open>Space.clip_by_bound\<close> are not
  among the sources. The spec has the agent clamp every component of its position into
  \<open>[lb, ub]\<close>, variable by variable, and the space do so for every agent.
\<close>

definition clip_position :: "real list \<Rightarrow> real list \<Rightarrow> ndarray \<Rightarrow> ndarray" where
  "clip_position los his x =
     map (\<lambda>(row, lo, hi). map (\<lambda>v. min hi (max lo v)) row) (zip x (zip los his))"

definition agent_clip_by_bound :: "addr \<Rightarrow> store \<Rightarrow> store" where
  "agent_clip_by_bound a s =
     set_position a (clip_position (lb (agents_of s a)) (ub (agents_of s a)) (get_position s a)) s"

definition space_clip_by_bound :: "space \<Rightarrow> store \<Rightarrow> store" where
  "space_clip_by_bound sp s = fold agent_clip_by_bound (agents sp) s"

text \<open>
  Modelled from the spec: the \<^verbatim>\<open>History\<close> class is not among the sources. The spec has
  \<^verbatim>\<open>dump\<close> append one snapshot per call: a copy of the best agent's position and its fitness
  when \<^verbatim>\<open>store_best_only\<close> is set, and the copied position and the fitness of every agent
  otherwise.
\<close>

datatype snapshot =
    Best_snapshot ndarray real
  | Full_snapshot "(ndarray \<times> real) list"

type_synonym history = "snapshot list"

definition dump :: "bool \<Rightarrow> space \<Rightarrow> store \<Rightarrow> history \<Rightarrow> history" where
  "dump store_best_only sp s h =
     h @ [if store_best_only
          then Best_snapshot (get_position s (best_agent sp)) (get_fit s (best_agent sp))
          else Full_snapshot (map (\<lambda>a. (get_position s a, get_fit s a)) (agents sp))]"

section \<open>Loops whose body may raise\<close>

text \<open>A \<^verbatim>\<open>for\<close> loop over a list: the first exception ends it.\<close>

fun for_each :: "('a \<Rightarrow> 's \<Rightarrow> error + 's) \<Rightarrow> 'a list \<Rightarrow> 's \<Rightarrow> error + 's" where
  "for_each body [] s = Inr s"
| "for_each body (x # xs) s =
     (case body x s of Inl e \<Rightarrow> Inl e | Inr s1 \<Rightarrow> for_each body xs s1)"

section \<open>Classes and attribute lookup\<close>

text \<open>
  The classes of the sources, and the functions their bodies bind that are looked up on
  \<^verbatim>\<open>self\<close> by the constructors and the \<^verbatim>\<open>run\<close> methods, under the names the class bodies
  give them: the base class binds \<^verbatim>\<open>_build\<close>, \<^verbatim>\<open>_update\<close> and \<^verbatim>\<open>_evaluate\<close>; each
  algorithm binds \<^verbatim>\<open>update\<close>. A lookup on an instance walks the method resolution order of
  its class and takes the first binding of the name.
\<close>

datatype cls = Optimizer | GSA | BA | SBO

datatype callable =
    Optimizer_build_m
  | Optimizer_update_m
  | Optimizer_evaluate_m
  | GSA_update_m
  | BA_update_m
  | SBO_update_m

fun mro :: "cls \<Rightarrow> cls list" where
  "mro Optimizer = [Optimizer]"
| "mro GSA = [GSA, Optimizer]"
| "mro BA = [BA, Optimizer]"
| "mro SBO = [SBO, Optimizer]"

fun class_dict :: "cls \<Rightarrow> string \<Rightarrow> callable option" where
  "class_dict Optimizer name =
     (if name = ''_build'' then Some Optimizer_build_m
      else if name = ''_update'' then Some Optimizer_update_m
      else if name = ''_evaluate'' then Some Optimizer_evaluate_m
      else None)"
| "class_dict GSA name = (if name = ''update'' then Some GSA_update_m else None)"
| "class_dict BA name = (if name = ''update'' then Some BA_update_m else None)"
| "class_dict SBO name = (if name = ''update'' then Some SBO_update_m else None)"

fun lookup_mro :: "cls list \<Rightarrow> string \<Rightarrow> callable option" where
  "lookup_mro [] name = None"
| "lookup_mro (k # ks) name =
     (case class_dict k name of Some m \<Rightarrow> Some m | None \<Rightarrow> lookup_mro ks name)"

definition getattr :: "cls \<Rightarrow> string \<Rightarrow> error + callable" where
  "getattr c name =
     (case lookup_mro (mro c) name of None \<Rightarrow> Inl (AttributeError name) | Some m \<Rightarrow> Inr m)"

text \<open>
  \<^verbatim>\<open>Optimizer._update(self)\<close> takes no argument besides \<^verbatim>\<open>self\<close>: a call that passes
  \<open>nargs > 0\<close> positional arguments does not fit its signature, and a call that passes none
  reaches its body, \<^verbatim>\<open>raise NotImplementedError\<close>.
\<close>

definition Optimizer_update :: "nat \<Rightarrow> error + 'a" where
  "Optimizer_update nargs = (if nargs = 0 then Inl NotImplementedError else Inl BuiltinTypeError)"

text \<open>
  The call \<^verbatim>\<open>self._evaluate(space, function, hook=pre_evaluate)\<close> of the \<^verbatim>\<open>run\<close> methods.
  Only the decorated \<^verbatim>\<open>Optimizer._evaluate\<close> accepts the keyword \<^verbatim>\<open>hook\<close>.
\<close>

definition call_evaluate ::
  "cls \<Rightarrow> (store \<Rightarrow> store) option \<Rightarrow> (ndarray \<Rightarrow> real) \<Rightarrow> space \<Rightarrow> store \<Rightarrow> error + store" where
  "call_evaluate c hook function sp s =
     (case getattr c ''_evaluate'' of
        Inl e \<Rightarrow> Inl e
      | Inr m \<Rightarrow>
          (case m of
             Optimizer_evaluate_m \<Rightarrow> Inr (Optimizer_evaluate hook sp function s)
           | _ \<Rightarrow> Inl BuiltinTypeError))"

section \<open>The run loop\<close>

text \<open>
  The loop the three \<^verbatim>\<open>run\<close> methods share, and its body for the iteration \<open>t\<close>:
  \<^verbatim>\<open>
    self._update(...)
    space.clip_by_bound()
    self._evaluate(space, function, hook=pre_evaluate)
    history.dump(agents=space.agents, best_agent=space.best_agent)
  \<close>
  \<open>upd\<close> is the call \<^verbatim>\<open>self._update(...)\<close> of the algorithm, which works on the arrays \<open>x\<close>
  that the algorithm keeps between iterations, on the space and on the store; \<open>ev\<close> is the
  call \<^verbatim>\<open>self._evaluate(...)\<close>. The progress bar and the log are not modelled.
\<close>

definition run_iteration ::
  "(nat \<Rightarrow> 'x \<times> space \<times> store \<Rightarrow> error + 'x \<times> space \<times> store) \<Rightarrow>
   (space \<Rightarrow> store \<Rightarrow> error + store) \<Rightarrow> bool \<Rightarrow> nat \<Rightarrow>
   ('x \<times> space \<times> store) \<times> history \<Rightarrow> error + ('x \<times> space \<times> store) \<times> history" where
  "run_iteration upd ev store_best_only t w =
     (case w of (xs, h) \<Rightarrow>
        (case upd t xs of
           Inl e \<Rightarrow> Inl e
         | Inr (x1, sp1, s1) \<Rightarrow>
             (case ev sp1 (space_clip_by_bound sp1 s1) of
                Inl e \<Rightarrow> Inl e
              | Inr s3 \<Rightarrow> Inr ((x1, sp1, s3), dump store_best_only sp1 s3 h))))"

definition run_loop ::
  "(nat \<Rightarrow> 'x \<times> space \<times> store \<Rightarrow> error + 'x \<times> space \<times> store) \<Rightarrow>
   (space \<Rightarrow> store \<Rightarrow> error + store) \<Rightarrow> bool \<Rightarrow> int \<Rightarrow>
   ('x \<times> space \<times> store) \<times> history \<Rightarrow> error + ('x \<times> space \<times> store) \<times> history" where
  "run_loop upd ev store_best_only n w =
     for_each (run_iteration upd ev store_best_only) [0..<nat n] w"

section \<open>The gravitational search algorithm\<close>

text \<open>
  \<open>self\<close> as the methods of \<^verbatim>\<open>GSA\<close> read it: the value of the property \<^verbatim>\<open>G\<close>.
\<close>

record GSA_self =
  G_hp :: real

text \<open>
  What the methods of \<^verbatim>\<open>GSA\<close> take from modules that are not among the sources:
  \<^verbatim>\<open>g.euclidean_distance\<close>, the constant \<^verbatim>\<open>c.EPSILON\<close>, and the numbers that
  \<^verbatim>\<open>r.generate_uniform_random_number()\<close> returns in \<^verbatim>\<open>_calculate_force\<close> and, for the
  agent of index \<open>i\<close>, in \<^verbatim>\<open>_update_velocity\<close>.
\<close>

record GSA_ext =
  euclidean_distance :: "ndarray \<Rightarrow> ndarray \<Rightarrow> real"
  EPSILON :: real
  force_uniform :: real
  velocity_uniform :: "nat \<Rightarrow> real"

text \<open>
  \<^verbatim>\<open>GSA._calculate_mass(agents)\<close>, on the agent objects in the order of the list.
  \<^verbatim>\<open>agents[0]\<close> raises on an empty list. Neither division is guarded: a zero divisor is the
  result \<open>ZeroDivisionError\<close> (Python's floats raise it; numpy's signal it and go on with
  infinities and NaNs, which the reals do not have).
\<close>

definition GSA_calculate_mass :: "agent list \<Rightarrow> error + real list" where
  "GSA_calculate_mass xs =
     (if xs = [] then Inl IndexError
      else
        let best = fit (hd xs); worst = fit (last xs)
        in if best - worst = 0 then Inl ZeroDivisionError
           else
             let mass = map (\<lambda>x. (fit x - worst) / (best - worst)) xs
             in if sum_list mass = 0 then Inl ZeroDivisionError
                else Inr (map (\<lambda>m. m / sum_list mass) mass))"

fun nd_sum :: "ndarray list \<Rightarrow> ndarray" where
  "nd_sum [] = []"
| "nd_sum (x # xs) = foldl nd_add x xs"

text \<open>
  \<^verbatim>\<open>GSA._calculate_force(agents, mass, gravity)\<close>, on the positions of the agents: the entry
  for the agents \<open>i\<close> and \<open>j\<close>, then the sum over \<open>j\<close> of the entries times one random number.
\<close>

definition GSA_calculate_force ::
  "GSA_ext \<Rightarrow> ndarray list \<Rightarrow> real list \<Rightarrow> real \<Rightarrow> ndarray list" where
  "GSA_calculate_force ext ps mass gravity =
     (let force =
            map (\<lambda>(p_i, m_i).
                   map (\<lambda>(p_j, m_j).
                          nd_scale (gravity * (m_i * m_j) / (euclidean_distance ext p_i p_j + EPSILON ext))
                            (nd_sub p_j p_i))
                     (zip ps mass))
              (zip ps mass)
      in map (\<lambda>row. nd_sum (map (nd_scale (force_uniform ext)) row)) force)"

definition GSA_update_velocity :: "GSA_ext \<Rightarrow> nat \<Rightarrow> ndarray \<Rightarrow> real \<Rightarrow> ndarray \<Rightarrow> ndarray" where
  "GSA_update_velocity ext i force mass vel =
     (let acceleration = map (map (\<lambda>v. v / (mass + EPSILON ext))) force;
          new_velocity = nd_add (nd_scale (velocity_uniform ext i) vel) acceleration
      in new_velocity)"

definition GSA_update_position :: "ndarray \<Rightarrow> ndarray \<Rightarrow> ndarray" where
  "GSA_update_position pos vel = (let new_position = nd_add pos vel in new_position)"

text \<open>
  The body of the loop of \<^verbatim>\<open>GSA.update\<close> for the agent \<open>a\<close> of index \<open>i\<close>:
  \<^verbatim>\<open>
    velocity[i] = self._update_velocity(force[i], mass[i], velocity[i])
    agent.position = self._update_position(agent.position, velocity[i])
  \<close>
\<close>

definition GSA_update_agent ::
  "GSA_ext \<Rightarrow> ndarray list \<Rightarrow> real list \<Rightarrow> nat \<times> addr \<Rightarrow> ndarray list \<times> store \<Rightarrow>
   error + ndarray list \<times> store" where
  "GSA_update_agent ext force mass ia w =
     (case (ia, w) of ((i, a), (vel, s)) \<Rightarrow>
        if i < length vel
        then (let v = GSA_update_velocity ext i (force ! i) (mass ! i) (vel ! i)
              in Inr (vel[i := v], set_position a (GSA_update_position (get_position s a) v) s))
        else Inl IndexError)"

text \<open>
  \<^verbatim>\<open>GSA.update(agents, velocity, iteration)\<close>. The sort is in place, so the caller's list is
  in the new order afterwards: the list is returned with the velocities and the store.
  \<^verbatim>\<open>list.sort\<close> is stable, as \<open>sort_key\<close> is. The masses and the forces have one entry per
  agent, so that \<^verbatim>\<open>force[i]\<close> and \<^verbatim>\<open>mass[i]\<close> are in range.
\<close>

definition GSA_update ::
  "GSA_self \<Rightarrow> GSA_ext \<Rightarrow> addr list \<Rightarrow> ndarray list \<Rightarrow> nat \<Rightarrow> store \<Rightarrow>
   error + addr list \<times> ndarray list \<times> store" where
  "GSA_update self ext xs vel iteration s =
     (let sorted_agents = sort_key (get_fit s) xs;
          gravity = G_hp self / (real iteration + 1)
      in case GSA_calculate_mass (map (agents_of s) sorted_agents) of
           Inl e \<Rightarrow> Inl e
         | Inr mass \<Rightarrow>
             (let force = GSA_calculate_force ext (map (get_position s) sorted_agents) mass gravity
              in case for_each (GSA_update_agent ext force mass) (enumerate 0 sorted_agents) (vel, s) of
                   Inl e \<Rightarrow> Inl e
                 | Inr (vel1, s1) \<Rightarrow> Inr (sorted_agents, vel1, s1)))"

text \<open>\<^verbatim>\<open>GSA.update\<close> called with the arguments \<^verbatim>\<open>(space.agents, velocity, t)\<close>: the list
  \<^verbatim>\<open>space.agents\<close> is the one that is sorted.\<close>

definition GSA_apply_update ::
  "GSA_self \<Rightarrow> (nat \<Rightarrow> GSA_ext) \<Rightarrow> nat \<Rightarrow> ndarray list \<times> space \<times> store \<Rightarrow>
   error + ndarray list \<times> space \<times> store" where
  "GSA_apply_update self ext t w =
     (case w of (vel, sp, s) \<Rightarrow>
        (case GSA_update self (ext t) (agents sp) vel t s of
           Inl e \<Rightarrow> Inl e
         | Inr (xs1, vel1, s1) \<Rightarrow> Inr (vel1, sp\<lparr>agents := xs1\<rparr>, s1)))"

text \<open>The call \<^verbatim>\<open>self._update(space.agents, velocity, t)\<close> of \<^verbatim>\<open>GSA.run\<close>: three positional
  arguments, which only \<^verbatim>\<open>GSA.update\<close> takes.\<close>

definition GSA_call_update ::
  "GSA_self \<Rightarrow> (nat \<Rightarrow> GSA_ext) \<Rightarrow> nat \<Rightarrow> ndarray list \<times> space \<times> store \<Rightarrow>
   error + ndarray list \<times> space \<times> store" where
  "GSA_call_update self ext t w =
     (case getattr GSA ''_update'' of
        Inl e \<Rightarrow> Inl e
      | Inr m \<Rightarrow>
          (case m of
             Optimizer_update_m \<Rightarrow> Optimizer_update 3
           | GSA_update_m \<Rightarrow> GSA_apply_update self ext t w
           | _ \<Rightarrow> Inl BuiltinTypeError))"

text \<open>\<^verbatim>\<open>GSA.run(space, function, store_best_only, pre_evaluate)\<close>. The method returns the
  history; the model returns with it the velocities, the space and the store as the call
  leaves them.\<close>

definition GSA_run ::
  "GSA_self \<Rightarrow> (nat \<Rightarrow> GSA_ext) \<Rightarrow> space \<Rightarrow> (ndarray \<Rightarrow> real) \<Rightarrow> bool \<Rightarrow> (store \<Rightarrow> store) option \<Rightarrow>
   store \<Rightarrow> error + (ndarray list \<times> space \<times> store) \<times> history" where
  "GSA_run self ext sp function store_best_only hook s =
     (let vel = replicate (n_agents sp) (nd_zeros (n_variables sp) (n_dimensions sp))
      in case call_evaluate GSA hook function sp s of
           Inl e \<Rightarrow> Inl e
         | Inr s1 \<Rightarrow>
             run_loop (GSA_call_update self ext) (call_evaluate GSA hook function) store_best_only
               (n_iterations sp) ((vel, sp, s1), []))"

section \<open>The bat algorithm: frequency\<close>

text \<open>
  \<^verbatim>\<open>BA._update_frequency(min_frequency, max_frequency)\<close>. The uniform draw
  \<^verbatim>\<open>rnd.generate_uniform_random_number()\<close> is the first argument \<open>beta\<close>.
\<close>

definition BA_update_frequency :: "real \<Rightarrow> real \<Rightarrow> real \<Rightarrow> real" where
  "BA_update_frequency beta min_frequency max_frequency =
     (let new_frequency = min_frequency + (min_frequency - max_frequency) * beta
      in new_frequency)"

section \<open>The bat algorithm: update\<close>

text \<open>\<open>self\<close> as the methods of \<^verbatim>\<open>BA\<close> read it: the values of the properties \<^verbatim>\<open>f_min\<close>,
  \<^verbatim>\<open>f_max\<close>, \<^verbatim>\<open>A\<close> and \<^verbatim>\<open>r\<close>.\<close>

record BA_self =
  f_min :: real
  f_max :: real
  A_hp :: real
  r_hp :: real

text \<open>The random numbers that \<^verbatim>\<open>BA.update\<close> draws for the agent of index \<open>i\<close>: \<^verbatim>\<open>beta\<close>,
  \<^verbatim>\<open>p\<close> (both uniform) and \<^verbatim>\<open>e\<close> (Gaussian).\<close>

record BA_draws =
  beta_uniform :: "nat \<Rightarrow> real"
  p_uniform :: "nat \<Rightarrow> real"
  e_gaussian :: "nat \<Rightarrow> real"

text \<open>
  What the loop of \<^verbatim>\<open>BA.update\<close> works on: the four arrays that the caller passes and that
  are written in place, the object that the local name \<^verbatim>\<open>best_agent\<close> refers to
  (\<open>local_best\<close>), and the store. \<open>walked\<close> is not in the source: it records the indices of
  the agents for which the local random walk ran.
\<close>

record BA_state =
  frequency :: "real list"
  velocity :: "ndarray list"
  loudness :: "real list"
  pulse_rate :: "real list"
  local_best :: addr
  walked :: "nat list"
  heap :: store

definition BA_update_velocity :: "ndarray \<Rightarrow> ndarray \<Rightarrow> real \<Rightarrow> ndarray \<Rightarrow> ndarray" where
  "BA_update_velocity pos best_position freq vel =
     (let new_velocity = nd_add vel (nd_scale freq (nd_sub pos best_position))
      in new_velocity)"

definition BA_update_position :: "ndarray \<Rightarrow> ndarray \<Rightarrow> ndarray" where
  "BA_update_position pos vel = (let new_position = nd_add pos vel in new_position)"

definition mean :: "real list \<Rightarrow> real" where
  "mean xs = sum_list xs / real (length xs)"

text \<open>
  The body of the loop of \<^verbatim>\<open>BA.update\<close> for the agent \<open>a\<close> of index \<open>i\<close>, up to and
  including \<^verbatim>\<open>agent.fit = function(agent.position)\<close>:
  \<^verbatim>\<open>
    frequency[i] = self._update_frequency(self.f_min, self.f_max)
    velocity[i] = self._update_velocity(agent.position, best_agent.position, frequency[i], velocity[i])
    agent.position = self._update_position(agent.position, velocity[i])
    p = rnd.generate_uniform_random_number()
    e = rnd.generate_gaussian_random_number()
    if p > pulse_rate[i]:
        agent.position = best_agent.position + 0.001 * e * np.mean(loudness)
    agent.clip_by_bound()
    agent.fit = function(agent.position)
  \<close>
\<close>

definition BA_move_agent ::
  "BA_self \<Rightarrow> (ndarray \<Rightarrow> real) \<Rightarrow> BA_draws \<Rightarrow> nat \<Rightarrow> addr \<Rightarrow> BA_state \<Rightarrow> BA_state" where
  "BA_move_agent self function dr i a st =
     (let f_i = BA_update_frequency (beta_uniform dr i) (f_min self) (f_max self);
          st1 = st\<lparr>frequency := (frequency st)[i := f_i]\<rparr>;
          v_i = BA_update_velocity (get_position (heap st1) a)
                  (get_position (heap st1) (local_best st1)) f_i (velocity st1 ! i);
          st2 = st1\<lparr>velocity := (velocity st1)[i := v_i]\<rparr>;
          st3 = st2\<lparr>heap := set_position a
                  (BA_update_position (get_position (heap st2) a) v_i) (heap st2)\<rparr>;
          p = p_uniform dr i;
          e = e_gaussian dr i;
          st4 = (if p > pulse_rate st3 ! i
                 then st3\<lparr>heap := set_position a
                             (nd_shift (get_position (heap st3) (local_best st3))
                                (0.001 * e * mean (loudness st3)))
                             (heap st3),
                          walked := walked st3 @ [i]\<rparr>
                 else st3);
          st5 = st4\<lparr>heap := agent_clip_by_bound a (heap st4)\<rparr>
      in st5\<lparr>heap := set_fit a (function (get_position (heap st5) a)) (heap st5)\<rparr>)"

text \<open>
  The whole body: an index outside one of the four arrays raises; after the statements above
  comes
  \<^verbatim>\<open>
    if p < loudness[i] and agent.fit < best_agent.fit:
        best_agent = copy.deepcopy(agent)
        pulse_rate[i] = self.r * (1 - np.exp(-alpha * iteration))
        loudness[i] = self.A * alpha
  \<close>
  with \<^verbatim>\<open>alpha = 0.9\<close>.
\<close>

definition BA_update_agent ::
  "BA_self \<Rightarrow> (ndarray \<Rightarrow> real) \<Rightarrow> nat \<Rightarrow> BA_draws \<Rightarrow> nat \<times> addr \<Rightarrow> BA_state \<Rightarrow> error + BA_state" where
  "BA_update_agent self function iteration dr ia st =
     (case ia of (i, a) \<Rightarrow>
        if \<not> (i < length (frequency st) \<and> i < length (velocity st) \<and>
                i < length (pulse_rate st) \<and> i < length (loudness st))
        then Inl IndexError
        else
          let alpha = 0.9;
              st6 = BA_move_agent self function dr i a st
          in if p_uniform dr i < loudness st6 ! i \<and>
                get_fit (heap st6) a < get_fit (heap st6) (local_best st6)
             then (let (b1, h1) = deepcopy_agent a (heap st6)
                   in Inr (st6\<lparr>local_best := b1, heap := h1,
                                pulse_rate := (pulse_rate st6)
                                  [i := r_hp self * (1 - exp (- alpha * real iteration))],
                                loudness := (loudness st6)[i := A_hp self * alpha]\<rparr>))
             else Inr st6)"

text \<open>
  \<^verbatim>\<open>BA.update(agents, best_agent, function, iteration, frequency, velocity, loudness,
  pulse_rate)\<close>. The result holds the arrays and the store as the call leaves them, and the
  object the local name \<^verbatim>\<open>best_agent\<close> refers to when the loop ends.
\<close>

definition BA_update ::
  "BA_self \<Rightarrow> BA_draws \<Rightarrow> addr list \<Rightarrow> addr \<Rightarrow> (ndarray \<Rightarrow> real) \<Rightarrow> nat \<Rightarrow>
   real list \<Rightarrow> ndarray list \<Rightarrow> real list \<Rightarrow> real list \<Rightarrow> store \<Rightarrow> error + BA_state" where
  "BA_update self dr xs b function iteration fr ve lo pr s =
     for_each (BA_update_agent self function iteration dr) (enumerate 0 xs)
       \<lparr>frequency = fr, velocity = ve, loudness = lo, pulse_rate = pr,
        local_best = b, walked = [], heap = s\<rparr>"

text \<open>\<^verbatim>\<open>BA.update\<close> called with the arguments \<^verbatim>\<open>(space.agents, space.best_agent, function, t,
  frequency, velocity, loudness, pulse_rate)\<close>: the caller keeps the four arrays and the
  store; the object its local name \<^verbatim>\<open>best_agent\<close> ends on is lost with the call.\<close>

definition BA_apply_update ::
  "BA_self \<Rightarrow> (nat \<Rightarrow> BA_draws) \<Rightarrow> (ndarray \<Rightarrow> real) \<Rightarrow> nat \<Rightarrow>
   (real list \<times> ndarray list \<times> real list \<times> real list) \<times> space \<times> store \<Rightarrow>
   error + (real list \<times> ndarray list \<times> real list \<times> real list) \<times> space \<times> store" where
  "BA_apply_update self dr function t w =
     (case w of ((fr, ve, lo, pr), sp, s) \<Rightarrow>
        (case BA_update self (dr t) (agents sp) (best_agent sp) function t fr ve lo pr s of
           Inl e \<Rightarrow> Inl e
         | Inr st \<Rightarrow> Inr ((frequency st, velocity st, loudness st, pulse_rate st), sp, heap st)))"

text \<open>The call \<^verbatim>\<open>self._update(space.agents, space.best_agent, function, t, frequency,
  velocity, loudness, pulse_rate)\<close> of \<^verbatim>\<open>BA.run\<close>: eight positional arguments, which only
  \<^verbatim>\<open>BA.update\<close> takes.\<close>

definition BA_call_update ::
  "BA_self \<Rightarrow> (nat \<Rightarrow> BA_draws) \<Rightarrow> (ndarray \<Rightarrow> real) \<Rightarrow> nat \<Rightarrow>
   (real list \<times> ndarray list \<times> real list \<times> real list) \<times> space \<times> store \<Rightarrow>
   error + (real list \<times> ndarray list \<times> real list \<times> real list) \<times> space \<times> store" where
  "BA_call_update self dr function t w =
     (case getattr BA ''_update'' of
        Inl e \<Rightarrow> Inl e
      | Inr m \<Rightarrow>
          (case m of
             Optimizer_update_m \<Rightarrow> Optimizer_update 8
           | BA_update_m \<Rightarrow> BA_apply_update self dr function t w
           | _ \<Rightarrow> Inl BuiltinTypeError))"

text \<open>\<^verbatim>\<open>BA.run(space, function, store_best_only, pre_evaluate)\<close>. The arrays \<open>fr0\<close>, \<open>lo0\<close> and
  \<open>pr0\<close> are the random arrays of size \<^verbatim>\<open>n_agents\<close> that the method starts from.\<close>

definition BA_run ::
  "BA_self \<Rightarrow> (nat \<Rightarrow> BA_draws) \<Rightarrow> real list \<Rightarrow> real list \<Rightarrow> real list \<Rightarrow>
   space \<Rightarrow> (ndarray \<Rightarrow> real) \<Rightarrow> bool \<Rightarrow> (store \<Rightarrow> store) option \<Rightarrow> store \<Rightarrow>
   error + ((real list \<times> ndarray list \<times> real list \<times> real list) \<times> space \<times> store) \<times> history" where
  "BA_run self dr fr0 lo0 pr0 sp function store_best_only hook s =
     (let ve0 = replicate (n_agents sp) (nd_zeros (n_variables sp) (n_dimensions sp))
      in case call_evaluate BA hook function sp s of
           Inl e \<Rightarrow> Inl e
         | Inr s1 \<Rightarrow>
             run_loop (BA_call_update self dr function) (call_evaluate BA hook function)
               store_best_only (n_iterations sp) (((fr0, ve0, lo0, pr0), sp, s1), []))"

section \<open>The satin bowerbird optimizer\<close>

text \<open>\<open>self\<close> as the methods of \<^verbatim>\<open>SBO\<close> read it: the values of the properties \<^verbatim>\<open>alpha\<close>,
  \<^verbatim>\<open>p_mutation\<close> and \<^verbatim>\<open>z\<close>.\<close>

record SBO_self =
  alpha_hp :: real
  p_mutation :: real
  z_hp :: real

text \<open>The random choices of \<^verbatim>\<open>SBO.update\<close> for the agent of index \<open>k\<close> and the variable
  \<open>j\<close>: the index \<^verbatim>\<open>s\<close> that \<^verbatim>\<open>d.generate_choice_distribution\<close> selects, the uniform number
  \<^verbatim>\<open>r1\<close> and the Gaussian number of the mutation.\<close>

record SBO_draws =
  choice :: "nat \<Rightarrow> nat \<Rightarrow> nat"
  mutation_uniform :: "nat \<Rightarrow> nat \<Rightarrow> real"
  mutation_gaussian :: "nat \<Rightarrow> nat \<Rightarrow> real"

text \<open>
  The first three statements of \<^verbatim>\<open>SBO.update\<close>, on the list of the agents' \<^verbatim>\<open>fit\<close>:
  \<^verbatim>\<open>
    fitness = [1 / (1 + agent.fit) if agent.fit >= 0 else 1 + np.abs(agent.fit) for agent in agents]
    total_fitness = np.sum(fitness)
    probs = [fit / total_fitness for fit in fitness]
  \<close>
\<close>

definition SBO_fitness :: "real list \<Rightarrow> real list" where
  "SBO_fitness fits = map (\<lambda>x. if x \<ge> 0 then 1 / (1 + x) else 1 + \<bar>x\<bar>) fits"

definition SBO_probs :: "real list \<Rightarrow> real list" where
  "SBO_probs fits =
     (let fitness = SBO_fitness fits;
          total_fitness = sum_list fitness
      in map (\<lambda>x. x / total_fitness) fitness)"

text \<open>
  The body of the inner loop of \<^verbatim>\<open>SBO.update\<close> for the agent \<open>a\<close> of index \<open>k\<close> and the
  variable \<open>j\<close>. The rows of the position are written in place, in the array the agent's
  \<^verbatim>\<open>position\<close> refers to.
\<close>

definition SBO_update_variable ::
  "SBO_self \<Rightarrow> SBO_draws \<Rightarrow> addr list \<Rightarrow> addr \<Rightarrow> real list \<Rightarrow> real list \<Rightarrow> nat \<Rightarrow> addr \<Rightarrow>
   nat \<Rightarrow> store \<Rightarrow> error + store" where
  "SBO_update_variable self dr xs b sigma probs k a j s =
     (let d = choice dr k j
      in if \<not> (d < length xs \<and> d < length probs) then Inl IndexError
         else
           let lambda_k = alpha_hp self / (1 + probs ! d);
               pa = position (agents_of s a);
               donor = get_position s (xs ! d);
               bestp = get_position s b
           in if \<not> (j < length (arrays_of s pa) \<and> j < length donor \<and> j < length bestp)
              then Inl IndexError
              else
                let row = arrays_of s pa ! j;
                    target = map (\<lambda>(u, v). (u + v) / 2) (zip (donor ! j) (bestp ! j));
                    row1 = map (\<lambda>(v, m). v + lambda_k * (m - v)) (zip row target);
                    s1 = s\<lparr>arrays_of := (arrays_of s)(pa := (arrays_of s pa)[j := row1])\<rparr>;
                    r1 = mutation_uniform dr k j
                in if r1 < p_mutation self
                   then (if j < length sigma
                         then Inr (s1\<lparr>arrays_of := (arrays_of s1)
                                     (pa := (arrays_of s1 pa)
                                        [j := map (\<lambda>v. v + sigma ! j * mutation_gaussian dr k j)
                                                (arrays_of s1 pa ! j)])\<rparr>)
                         else Inl IndexError)
                   else Inr s1)"

text \<open>The body of the outer loop: the variables \<^verbatim>\<open>range(agent.n_variables)\<close> are the rows of
  the position; then \<^verbatim>\<open>agent.clip_by_bound()\<close> and \<^verbatim>\<open>agent.fit = function(agent.position)\<close>.\<close>

definition SBO_update_agent ::
  "SBO_self \<Rightarrow> SBO_draws \<Rightarrow> addr list \<Rightarrow> addr \<Rightarrow> (ndarray \<Rightarrow> real) \<Rightarrow> real list \<Rightarrow> real list \<Rightarrow>
   nat \<times> addr \<Rightarrow> store \<Rightarrow> error + store" where
  "SBO_update_agent self dr xs b function sigma probs ka s =
     (case ka of (k, a) \<Rightarrow>
        (case for_each (SBO_update_variable self dr xs b sigma probs k a)
                [0..<length (get_position s a)] s of
           Inl e \<Rightarrow> Inl e
         | Inr s1 \<Rightarrow>
             (let s2 = agent_clip_by_bound a s1
              in Inr (set_fit a (function (get_position s2 a)) s2))))"

text \<open>\<^verbatim>\<open>SBO.update(agents, best_agent, function, sigma)\<close>.\<close>

definition SBO_update ::
  "SBO_self \<Rightarrow> SBO_draws \<Rightarrow> addr list \<Rightarrow> addr \<Rightarrow> (ndarray \<Rightarrow> real) \<Rightarrow> real list \<Rightarrow> store \<Rightarrow>
   error + store" where
  "SBO_update self dr xs b function sigma s =
     (let probs = SBO_probs (map (get_fit s) xs)
      in for_each (SBO_update_agent self dr xs b function sigma probs) (enumerate 0 xs) s)"

text \<open>\<^verbatim>\<open>SBO.update\<close> called with the arguments \<^verbatim>\<open>(space.agents, space.best_agent, function,
  sigma)\<close>.\<close>

definition SBO_apply_update ::
  "SBO_self \<Rightarrow> (nat \<Rightarrow> SBO_draws) \<Rightarrow> (ndarray \<Rightarrow> real) \<Rightarrow> nat \<Rightarrow> real list \<times> space \<times> store \<Rightarrow>
   error + real list \<times> space \<times> store" where
  "SBO_apply_update self dr function t w =
     (case w of (sigma, sp, s) \<Rightarrow>
        (case SBO_update self (dr t) (agents sp) (best_agent sp) function sigma s of
           Inl e \<Rightarrow> Inl e
         | Inr s1 \<Rightarrow> Inr (sigma, sp, s1)))"

text \<open>The call \<^verbatim>\<open>self._update(space.agents, space.best_agent, function, sigma)\<close> of
  \<^verbatim>\<open>SBO.run\<close>: four positional arguments, which only \<^verbatim>\<open>SBO.update\<close> takes.\<close>

definition SBO_call_update ::
  "SBO_self \<Rightarrow> (nat \<Rightarrow> SBO_draws) \<Rightarrow> (ndarray \<Rightarrow> real) \<Rightarrow> nat \<Rightarrow> real list \<times> space \<times> store \<Rightarrow>
   error + real list \<times> space \<times> store" where
  "SBO_call_update self dr function t w =
     (case getattr SBO ''_update'' of
        Inl e \<Rightarrow> Inl e
      | Inr m \<Rightarrow>
          (case m of
             Optimizer_update_m \<Rightarrow> Optimizer_update 4
           | SBO_update_m \<Rightarrow> SBO_apply_update self dr function t w
           | _ \<Rightarrow> Inl BuiltinTypeError))"

text \<open>\<^verbatim>\<open>SBO.run(space, function, store_best_only, pre_evaluate)\<close>.\<close>

definition SBO_run ::
  "SBO_self \<Rightarrow> (nat \<Rightarrow> SBO_draws) \<Rightarrow> space \<Rightarrow> (ndarray \<Rightarrow> real) \<Rightarrow> bool \<Rightarrow>
   (store \<Rightarrow> store) option \<Rightarrow> store \<Rightarrow> error + (real list \<times> space \<times> store) \<times> history" where
  "SBO_run self dr sp function store_best_only hook s =
     (let sigma = map (\<lambda>(l, u). z_hp self * (u - l)) (zip (space_lb sp) (space_ub sp))
      in case call_evaluate SBO hook function sp s of
           Inl e \<Rightarrow> Inl e
         | Inr s1 \<Rightarrow>
             run_loop (SBO_call_update self dr function) (call_evaluate SBO hook function)
               store_best_only (n_iterations sp) ((sigma, sp, s1), []))"

section \<open>Building an optimizer\<close>

text \<open>
  The values a hyperparameter can be. A dictionary is the list of its items, in the order
  \<^verbatim>\<open>items()\<close> yields them; a key is a value as well, a string or not.
\<close>

datatype pyval =
    PyNone
  | PyBool bool
  | PyInt int
  | PyFloat real
  | PyStr string
  | PyList "pyval list"
  | PyDict "(pyval \<times> pyval) list"

text \<open>The instance dictionary of an optimizer object: the attributes stored on it.\<close>

type_synonym attrs = "string \<Rightarrow> pyval option"

text \<open>The dictionary of an object that has no attribute yet.\<close>

definition new_instance :: attrs where
  "new_instance = (\<lambda>name. None)"

text \<open>\<^verbatim>\<open>isinstance(v, (float, int))\<close>: \<^verbatim>\<open>bool\<close> is a subclass of \<^verbatim>\<open>int\<close>.\<close>

fun is_number :: "pyval \<Rightarrow> bool" where
  "is_number (PyBool b) = True"
| "is_number (PyInt i) = True"
| "is_number (PyFloat x) = True"
| "is_number v = False"

fun num :: "pyval \<Rightarrow> real" where
  "num (PyBool b) = (if b then 1 else 0)"
| "num (PyInt i) = real_of_int i"
| "num (PyFloat x) = x"
| "num v = 0"

text \<open>\<^verbatim>\<open>isinstance(hyperparams, dict) or hyperparams is None\<close>.\<close>

fun dict_or_none :: "pyval \<Rightarrow> bool" where
  "dict_or_none (PyDict kvs) = True"
| "dict_or_none PyNone = True"
| "dict_or_none v = False"

text \<open>The items that the loop of \<^verbatim>\<open>_build\<close> goes through: those of a dictionary that is not
  empty (\<^verbatim>\<open>if hyperparams:\<close>).\<close>

fun items :: "pyval \<Rightarrow> (pyval \<times> pyval) list" where
  "items (PyDict kvs) = kvs"
| "items v = []"


text \<open>The attributes that a dictionary gives an object whose \<^verbatim>\<open>__dict__\<close> it becomes: its
  items with a string for key.\<close>

fun dict_attrs :: "(pyval \<times> pyval) list \<Rightarrow> attrs" where
  "dict_attrs [] = new_instance"
| "dict_attrs (kv # kvs) =
     (case fst kv of PyStr name \<Rightarrow> (dict_attrs kvs)(name \<mapsto> snd kv) | _ \<Rightarrow> dict_attrs kvs)"

text \<open>Reading an attribute that is stored on the object, as the getters of the properties do
  (\<^verbatim>\<open>return self._algorithm\<close>): a name that is not stored raises.\<close>

definition read_attr :: "attrs \<Rightarrow> string \<Rightarrow> error + pyval" where
  "read_attr d name = (case d name of None \<Rightarrow> Inl (AttributeError name) | Some v \<Rightarrow> Inr v)"

subsection \<open>Property setters\<close>

definition Optimizer_algorithm_setter :: "attrs \<Rightarrow> pyval \<Rightarrow> error + attrs" where
  "Optimizer_algorithm_setter d v = Inr (d(''_algorithm'' \<mapsto> v))"

definition Optimizer_hyperparams_setter :: "attrs \<Rightarrow> pyval \<Rightarrow> error + attrs" where
  "Optimizer_hyperparams_setter d v =
     (if \<not> dict_or_none v then Inl (TypeError ''`hyperparams` should be a dictionary'')
      else Inr (d(''_hyperparams'' \<mapsto> v)))"

definition Optimizer_built_setter :: "attrs \<Rightarrow> pyval \<Rightarrow> error + attrs" where
  "Optimizer_built_setter d v = Inr (d(''_built'' \<mapsto> v))"

definition GSA_G_setter :: "attrs \<Rightarrow> pyval \<Rightarrow> error + attrs" where
  "GSA_G_setter d v =
     (if \<not> is_number v then Inl (TypeError ''`G` should be a float or integer'')
      else if num v < 0 then Inl (ValueError ''`G` should be >= 0'')
      else Inr (d(''_G'' \<mapsto> v)))"

definition BA_f_min_setter :: "attrs \<Rightarrow> pyval \<Rightarrow> error + attrs" where
  "BA_f_min_setter d v =
     (if \<not> is_number v then Inl (TypeError ''`f_min` should be a float or integer'')
      else if num v < 0 then Inl (ValueError ''`f_min` should be >= 0'')
      else Inr (d(''_f_min'' \<mapsto> v)))"

text \<open>The setter of \<^verbatim>\<open>f_max\<close> reads \<^verbatim>\<open>self.f_min\<close>, that is the attribute \<^verbatim>\<open>_f_min\<close>.\<close>

definition BA_f_max_setter :: "attrs \<Rightarrow> pyval \<Rightarrow> error + attrs" where
  "BA_f_max_setter d v =
     (if \<not> is_number v then Inl (TypeError ''`f_max` should be a float or integer'')
      else if num v < 0 then Inl (ValueError ''`f_max` should be >= 0'')
      else (case d ''_f_min'' of
              None \<Rightarrow> Inl (AttributeError ''_f_min'')
            | Some w \<Rightarrow>
                if \<not> is_number w then Inl BuiltinTypeError
                else if num v < num w then Inl (ValueError ''`f_max` should be >= `f_min`'')
                else Inr (d(''_f_max'' \<mapsto> v))))"

definition BA_A_setter :: "attrs \<Rightarrow> pyval \<Rightarrow> error + attrs" where
  "BA_A_setter d v =
     (if \<not> is_number v then Inl (TypeError ''`A` should be a float or integer'')
      else if num v < 0 then Inl (ValueError ''`A` should be >= 0'')
      else Inr (d(''_A'' \<mapsto> v)))"

definition BA_r_setter :: "attrs \<Rightarrow> pyval \<Rightarrow> error + attrs" where
  "BA_r_setter d v =
     (if \<not> is_number v then Inl (TypeError ''`r` should be a float or integer'')
      else if num v < 0 then Inl (ValueError ''`r` should be >= 0'')
      else Inr (d(''_r'' \<mapsto> v)))"

definition SBO_alpha_setter :: "attrs \<Rightarrow> pyval \<Rightarrow> error + attrs" where
  "SBO_alpha_setter d v =
     (if \<not> is_number v then Inl (TypeError ''`alpha` should be a float or integer'')
      else if num v < 0 then Inl (ValueError ''`alpha` should be >= 0'')
      else Inr (d(''_alpha'' \<mapsto> v)))"

definition SBO_p_mutation_setter :: "attrs \<Rightarrow> pyval \<Rightarrow> error + attrs" where
  "SBO_p_mutation_setter d v =
     (if \<not> is_number v then Inl (TypeError ''`p_mutation` should be a float or integer'')
      else if num v < 0 \<or> num v > 1 then Inl (ValueError ''`p_mutation` should be between 0 and 1'')
      else Inr (d(''_p_mutation'' \<mapsto> v)))"

definition SBO_z_setter :: "attrs \<Rightarrow> pyval \<Rightarrow> error + attrs" where
  "SBO_z_setter d v =
     (if \<not> is_number v then Inl (TypeError ''`z` should be a float or integer'')
      else if num v < 0 \<or> num v > 1 then Inl (ValueError ''`z` should be between 0 and 1'')
      else Inr (d(''_z'' \<mapsto> v)))"

text \<open>The properties with a setter that each class body declares.\<close>

fun class_setter :: "cls \<Rightarrow> string \<Rightarrow> (attrs \<Rightarrow> pyval \<Rightarrow> error + attrs) option" where
  "class_setter Optimizer name =
     (if name = ''algorithm'' then Some Optimizer_algorithm_setter
      else if name = ''hyperparams'' then Some Optimizer_hyperparams_setter
      else if name = ''built'' then Some Optimizer_built_setter
      else None)"
| "class_setter GSA name = (if name = ''G'' then Some GSA_G_setter else None)"
| "class_setter BA name =
     (if name = ''f_min'' then Some BA_f_min_setter
      else if name = ''f_max'' then Some BA_f_max_setter
      else if name = ''A'' then Some BA_A_setter
      else if name = ''r'' then Some BA_r_setter
      else None)"
| "class_setter SBO name =
     (if name = ''alpha'' then Some SBO_alpha_setter
      else if name = ''p_mutation'' then Some SBO_p_mutation_setter
      else if name = ''z'' then Some SBO_z_setter
      else None)"

fun lookup_setter :: "cls list \<Rightarrow> string \<Rightarrow> (attrs \<Rightarrow> pyval \<Rightarrow> error + attrs) option" where
  "lookup_setter [] name = None"
| "lookup_setter (k # ks) name =
     (case class_setter k name of Some f \<Rightarrow> Some f | None \<Rightarrow> lookup_setter ks name)"

text \<open>
  \<^verbatim>\<open>setattr(self, name, v)\<close> on an instance of the class \<open>c\<close>, for a string \<open>name\<close>: the setter
  of the first property of that name in the method resolution order, and a plain attribute
  when there is none. Three names belong to the interpreter: \<^verbatim>\<open>__class__\<close> takes a class, which
  no value here is; \<^verbatim>\<open>__dict__\<close> takes a dictionary, which replaces the attributes of the
  object; \<^verbatim>\<open>__weakref__\<close> cannot be written.
\<close>

definition setattr :: "cls \<Rightarrow> attrs \<Rightarrow> string \<Rightarrow> pyval \<Rightarrow> error + attrs" where
  "setattr c d name v =
     (if name = ''__class__'' then Inl BuiltinTypeError
      else if name = ''__dict__''
      then (case v of PyDict kvs \<Rightarrow> Inr (dict_attrs kvs) | _ \<Rightarrow> Inl BuiltinTypeError)
      else if name = ''__weakref__'' then Inl (AttributeError ''__weakref__'')
      else (case lookup_setter (mro c) name of Some f \<Rightarrow> f d v | None \<Rightarrow> Inr (d(name \<mapsto> v))))"

text \<open>\<^verbatim>\<open>setattr(self, k, v)\<close> for a key \<open>k\<close> of a dictionary: an attribute name must be a
  string.\<close>

definition setattr_key :: "cls \<Rightarrow> attrs \<Rightarrow> pyval \<Rightarrow> pyval \<Rightarrow> error + attrs" where
  "setattr_key c d k v =
     (case k of PyStr name \<Rightarrow> setattr c d name v | _ \<Rightarrow> Inl BuiltinTypeError)"

text \<open>
  \<^verbatim>\<open>Optimizer._build(hyperparams)\<close> on an instance of the class \<open>c\<close> whose dictionary is \<open>d\<close>:
  \<^verbatim>\<open>
    self.hyperparams = hyperparams
    if hyperparams:
        for k, v in hyperparams.items():
            setattr(self, k, v)
    self.built = True
    logger.debug('Algorithm: %s | Hyperparameters: %s | Built: %s.',
                 self.algorithm, str(hyperparams), self.built)
  \<close>
  The arguments of the last statement are evaluated whatever the logger does with them: the
  getters of \<^verbatim>\<open>algorithm\<close> and \<^verbatim>\<open>built\<close> read \<^verbatim>\<open>_algorithm\<close> and \<^verbatim>\<open>_built\<close>. The logger itself
  is not modelled.
\<close>

definition Optimizer_build :: "cls \<Rightarrow> attrs \<Rightarrow> pyval \<Rightarrow> error + attrs" where
  "Optimizer_build c d hyperparams =
     (case setattr c d ''hyperparams'' hyperparams of
        Inl e \<Rightarrow> Inl e
      | Inr d1 \<Rightarrow>
          (case for_each (\<lambda>kv d2. setattr_key c d2 (fst kv) (snd kv)) (items hyperparams) d1 of
             Inl e \<Rightarrow> Inl e
           | Inr d3 \<Rightarrow>
               (case setattr c d3 ''built'' (PyBool True) of
                  Inl e \<Rightarrow> Inl e
                | Inr d4 \<Rightarrow>
                    (case read_attr d4 ''_algorithm'' of
                       Inl e \<Rightarrow> Inl e
                     | Inr a \<Rightarrow>
                         (case read_attr d4 ''_built'' of
                            Inl e \<Rightarrow> Inl e
                          | Inr b \<Rightarrow> Inr d4)))))"

subsection \<open>Constructors\<close>

text \<open>\<^verbatim>\<open>Optimizer.__init__(algorithm='')\<close> on a new instance of the class \<open>c\<close>.\<close>

definition Optimizer_init :: "cls \<Rightarrow> error + attrs" where
  "Optimizer_init c =
     (case setattr c new_instance ''algorithm'' (PyStr []) of
        Inl e \<Rightarrow> Inl e
      | Inr d1 \<Rightarrow>
          (case setattr c d1 ''hyperparams'' PyNone of
             Inl e \<Rightarrow> Inl e
           | Inr d2 \<Rightarrow> setattr c d2 ''built'' (PyBool False)))"

text \<open>The call \<^verbatim>\<open>self.build(params)\<close> of the constructors: one positional argument, which
  only \<^verbatim>\<open>Optimizer._build\<close> takes.\<close>

definition call_build :: "cls \<Rightarrow> attrs \<Rightarrow> pyval \<Rightarrow> error + attrs" where
  "call_build c d params =
     (case getattr c ''build'' of
        Inl e \<Rightarrow> Inl e
      | Inr m \<Rightarrow>
          (case m of
             Optimizer_build_m \<Rightarrow> Optimizer_build c d params
           | Optimizer_update_m \<Rightarrow> Optimizer_update 1
           | _ \<Rightarrow> Inl BuiltinTypeError))"

text \<open>\<^verbatim>\<open>GSA.__init__(params)\<close>, \<^verbatim>\<open>BA.__init__(params)\<close> and \<^verbatim>\<open>SBO.__init__(params)\<close>.\<close>

definition GSA_init :: "pyval \<Rightarrow> error + attrs" where
  "GSA_init params =
     (case Optimizer_init GSA of
        Inl e \<Rightarrow> Inl e
      | Inr d \<Rightarrow>
          (case setattr GSA d ''G'' (PyFloat 2.467) of
             Inl e \<Rightarrow> Inl e
           | Inr d1 \<Rightarrow> call_build GSA d1 params))"

definition BA_init :: "pyval \<Rightarrow> error + attrs" where
  "BA_init params =
     (case Optimizer_init BA of
        Inl e \<Rightarrow> Inl e
      | Inr d \<Rightarrow>
          (case setattr BA d ''f_min'' (PyInt 0) of
             Inl e \<Rightarrow> Inl e
           | Inr d1 \<Rightarrow>
               (case setattr BA d1 ''f_max'' (PyInt 2) of
                  Inl e \<Rightarrow> Inl e
                | Inr d2 \<Rightarrow>
                    (case setattr BA d2 ''A'' (PyFloat 0.5) of
                       Inl e \<Rightarrow> Inl e
                     | Inr d3 \<Rightarrow>
                         (case setattr BA d3 ''r'' (PyFloat 0.5) of
                            Inl e \<Rightarrow> Inl e
                          | Inr d4 \<Rightarrow> call_build BA d4 params)))))"

definition SBO_init :: "pyval \<Rightarrow> error + attrs" where
  "SBO_init params =
     (case Optimizer_init SBO of
        Inl e \<Rightarrow> Inl e
      | Inr d \<Rightarrow>
          (case setattr SBO d ''alpha'' (PyFloat 0.9) of
             Inl e \<Rightarrow> Inl e
           | Inr d1 \<Rightarrow>
               (case setattr SBO d1 ''p_mutation'' (PyFloat 0.05) of
                  Inl e \<Rightarrow> Inl e
                | Inr d2 \<Rightarrow>
                    (case setattr SBO d2 ''z'' (PyFloat 0.02) of
                       Inl e \<Rightarrow> Inl e
                     | Inr d3 \<Rightarrow> call_build SBO d3 params))))"

section \<open>Example inputs\<close>

text \<open>A store with two agents, at the addresses 0 and 1, of fitness 10 and 0, and a best agent
  at the address 2, with one variable of one dimension each; their positions are the arrays
  at the addresses 3, 4 and 5. The space of these agents runs for one iteration.\<close>

definition example_store :: store where
  "example_store =
     \<lparr>agents_of = (\<lambda>n. \<lparr>position = 0, fit = 0, lb = [], ub = []\<rparr>)
                    (0 := \<lparr>position = 3, fit = 10, lb = [- 5], ub = [5]\<rparr>,
                     1 := \<lparr>position = 4, fit = 0, lb = [- 5], ub = [5]\<rparr>,
                     2 := \<lparr>position = 5, fit = 100, lb = [- 5], ub = [5]\<rparr>),
      arrays_of = (\<lambda>n. [])(3 := [[1]], 4 := [[2]], 5 := [[0]]),
      next_addr = 6\<rparr>"

definition example_space :: space where
  "example_space =
     \<lparr>agents = [0, 1], best_agent = 2, n_agents = 2, n_variables = 1, n_dimensions = 1,
      n_iterations = 1, space_lb = [- 5], space_ub = [5]\<rparr>"

text \<open>The objective of the examples: the sum of the squares of the components.\<close>

definition example_function :: "ndarray \<Rightarrow> real" where
  "example_function x = sum_list (map (\<lambda>v. v * v) (concat x))"

definition example_GSA_ext :: GSA_ext where
  "example_GSA_ext =
     \<lparr>euclidean_distance = (\<lambda>x y. \<bar>hd (hd x) - hd (hd y)\<bar>), EPSILON = 1,
      force_uniform = 1 / 2, velocity_uniform = (\<lambda>i. 1 / 2)\<rparr>"

text \<open>Hyperparameters and random draws for the bat algorithm on this store, and the store
  after the update has handled the first agent and after it has handled both.\<close>

definition example_BA_self :: BA_self where
  "example_BA_self = \<lparr>f_min = 0, f_max = 2, A_hp = 1 / 2, r_hp = 1 / 2\<rparr>"

definition example_BA_draws :: BA_draws where
  "example_BA_draws = \<lparr>beta_uniform = (\<lambda>i. 1 / 2), p_uniform = (\<lambda>i. 1 / 8), e_gaussian = (\<lambda>i. 0)\<rparr>"

definition example_BA_heap1 :: store where
  "example_BA_heap1 =
     \<lparr>agents_of = (agents_of example_store)
                    (0 := \<lparr>position = 7, fit = 0, lb = [- 5], ub = [5]\<rparr>,
                     9 := \<lparr>position = 8, fit = 0, lb = [- 5], ub = [5]\<rparr>),
      arrays_of = (arrays_of example_store)(6 := [[0]], 7 := [[0]], 8 := [[0]]),
      next_addr = 10\<rparr>"

definition example_BA_heap2 :: store where
  "example_BA_heap2 =
     \<lparr>agents_of = (agents_of example_BA_heap1)
                    (1 := \<lparr>position = 11, fit = 0, lb = [- 5], ub = [5]\<rparr>),
      arrays_of = (arrays_of example_BA_heap1)(10 := [[0]], 11 := [[0]]),
      next_addr = 12\<rparr>"

text \<open>The attributes of an object after \<^verbatim>\<open>Optimizer.__init__\<close>, and those of a \<^verbatim>\<open>GSA\<close> and of
  an \<^verbatim>\<open>SBO\<close> object where their constructors reach the build call.\<close>

definition initialised :: attrs where
  "initialised =
     new_instance(''_algorithm'' \<mapsto> PyStr [], ''_hyperparams'' \<mapsto> PyNone, ''_built'' \<mapsto> PyBool False)"



text \<open>Hyperparameters and random choices for the satin bowerbird optimizer.\<close>

definition example_SBO_self :: SBO_self where
  "example_SBO_self = \<lparr>alpha_hp = 9 / 10, p_mutation = 1 / 20, z_hp = 1 / 50\<rparr>"

definition example_SBO_draws :: SBO_draws where
  "example_SBO_draws =
     \<lparr>choice = (\<lambda>k j. 0), mutation_uniform = (\<lambda>k j. 1 / 2), mutation_gaussian = (\<lambda>k j. 0)\<rparr>"

section \<open>Properties\<close>

subsection \<open>Frequency of the bat algorithm\<close>

lemma BA_update_frequency_upper:
  assumes "0 \<le> beta" and "lo < hi"
  shows "BA_update_frequency beta lo hi \<le> lo"
proof -
  have "(lo - hi) * beta \<le> 0"
    using assms by (simp add: mult_nonpos_nonneg)
  then show ?thesis
    by (simp add: BA_update_frequency_def)
qed

lemma BA_update_frequency_lower:
  assumes "beta < 1" and "lo < hi"
  shows "lo - (hi - lo) < BA_update_frequency beta lo hi"
proof -
  have "(hi - lo) * beta < (hi - lo) * 1"
    using assms by (intro mult_strict_left_mono) simp_all
  then show ?thesis
    by (simp add: BA_update_frequency_def algebra_simps)
qed

text \<open>
  C7. The frequency update returns \<open>f_min + (f_min - f_max) * beta\<close>, with the factor
  \<open>f_min - f_max\<close> and not \<open>f_max - f_min\<close>; for a draw \<open>beta\<close> in \<open>[0, 1)\<close> and
  \<open>f_max > f_min\<close> the result lies in the interval \<open>(f_min - (f_max - f_min), f_min]\<close>.
\<close>

theorem BA_update_frequency_range:
  "BA_update_frequency beta f_lo f_hi = f_lo + (f_lo - f_hi) * beta \<and>
   (0 \<le> beta \<and> beta < 1 \<and> f_lo < f_hi \<longrightarrow>
      f_lo - (f_hi - f_lo) < BA_update_frequency beta f_lo f_hi \<and>
      BA_update_frequency beta f_lo f_hi \<le> f_lo)"
  using BA_update_frequency_upper [of beta f_lo f_hi]
    BA_update_frequency_lower [of beta f_lo f_hi]
  by (simp add: BA_update_frequency_def)

theorem BA_update_frequency_range_witness:
  "(0::real) \<le> 1 / 2 \<and> (1 / 2 :: real) < 1 \<and> (0::real) < 2 \<and>
   BA_update_frequency (1 / 2) 0 2 = - 1 \<and>
   0 - (2 - 0) < BA_update_frequency (1 / 2) 0 2 \<and> BA_update_frequency (1 / 2) 0 2 \<le> 0"
  using BA_update_frequency_range [of "1 / 2" 0 2]
  by (simp add: BA_update_frequency_def)

subsection \<open>Selection probabilities of the satin bowerbird optimizer\<close>

lemma sum_list_divide:
  fixes ws :: "real list"
  shows "sum_list (map (\<lambda>x. x / c) ws) = sum_list ws / c"
  by (induction ws) (simp_all add: add_divide_distrib)

lemma SBO_fitness_pos: "w \<in> set (SBO_fitness fits) \<Longrightarrow> 0 < w"
  by (auto simp: SBO_fitness_def)

lemma sum_list_pos_real:
  fixes ws :: "real list"
  assumes "ws \<noteq> []" and "\<forall>w\<in>set ws. 0 < w"
  shows "0 < sum_list ws"
  using assms
proof (induction ws)
  case Nil
  then show ?case by simp
next
  case (Cons w ws)
  have "0 \<le> sum_list ws"
    using Cons.prems by (intro sum_list_nonneg) auto
  moreover have "0 < w" using Cons.prems by simp
  ultimately show ?case by simp
qed

lemma SBO_total_fitness_pos: "fits \<noteq> [] \<Longrightarrow> 0 < sum_list (SBO_fitness fits)"
  by (rule sum_list_pos_real) (auto simp: SBO_fitness_def)

lemma SBO_probs_sum: "fits \<noteq> [] \<Longrightarrow> sum_list (SBO_probs fits) = 1"
  using SBO_total_fitness_pos [of fits]
  by (simp add: SBO_probs_def Let_def sum_list_divide)

lemma SBO_probs_pos: "q \<in> set (SBO_probs fits) \<Longrightarrow> 0 < q"
proof -
  assume q: "q \<in> set (SBO_probs fits)"
  then have ne: "fits \<noteq> []"
    by (auto simp: SBO_probs_def SBO_fitness_def)
  from q obtain w where "w \<in> set (SBO_fitness fits)" and "q = w / sum_list (SBO_fitness fits)"
    by (auto simp: SBO_probs_def Let_def)
  then show "0 < q"
    using SBO_fitness_pos [of w fits] SBO_total_fitness_pos [OF ne] by simp
qed

lemma SBO_probs_nth:
  "i < length fits \<Longrightarrow> SBO_probs fits ! i = SBO_fitness fits ! i / sum_list (SBO_fitness fits)"
  by (simp add: SBO_probs_def Let_def SBO_fitness_def)

lemma SBO_probs_uniform: "SBO_probs [1, 1, 1] = [1 / 3, 1 / 3, 1 / 3]"
  by (simp add: SBO_probs_def SBO_fitness_def)

text \<open>
  C6. The update of the satin bowerbird optimizer turns each fitness into a positive weight,
  \<open>1 / (1 + fit)\<close> when \<open>fit \<ge> 0\<close> and \<open>1 + \<bar>fit\<bar>\<close> otherwise, and divides the weights by
  their sum: the probabilities are positive and add up to one, and the fitness list
  \<open>[1, 1, 1]\<close> gives \<open>[1/3, 1/3, 1/3]\<close>.
\<close>

theorem SBO_selection_probabilities:
  "SBO_fitness fits = map (\<lambda>x. if 0 \<le> x then 1 / (1 + x) else 1 + \<bar>x\<bar>) fits \<and>
   (\<forall>w\<in>set (SBO_fitness fits). 0 < w) \<and>
   length (SBO_probs fits) = length fits \<and>
   (\<forall>i<length fits. SBO_probs fits ! i = SBO_fitness fits ! i / sum_list (SBO_fitness fits)) \<and>
   (\<forall>q\<in>set (SBO_probs fits). 0 < q) \<and>
   (fits \<noteq> [] \<longrightarrow> sum_list (SBO_probs fits) = 1) \<and>
   SBO_probs [1, 1, 1] = [1 / 3, 1 / 3, 1 / 3]"
  using SBO_fitness_pos [of _ fits] SBO_probs_pos [of _ fits] SBO_probs_nth [of _ fits]
    SBO_probs_sum [of fits] SBO_probs_uniform
  by (simp add: SBO_fitness_def SBO_probs_def [of fits])

theorem SBO_selection_probabilities_witness:
  "[2, - 1 :: real] \<noteq> [] \<and> SBO_fitness [2, - 1] = [1 / 3, 2] \<and>
   SBO_probs [2, - 1] = [1 / 7, 6 / 7] \<and> sum_list (SBO_probs [2, - 1]) = 1 \<and>
   SBO_probs [2, - 1] ! 0 = SBO_fitness [2, - 1] ! 0 / sum_list (SBO_fitness [2, - 1]) \<and>
   SBO_probs [2, - 1] ! 1 = SBO_fitness [2, - 1] ! 1 / sum_list (SBO_fitness [2, - 1])"
  using SBO_selection_probabilities [of "[2, - 1]"]
  by (simp add: SBO_probs_def SBO_fitness_def)

subsection \<open>Masses of the gravitational search algorithm\<close>

lemma GSA_calculate_mass_Inr:
  assumes "GSA_calculate_mass xs = Inr m"
  shows "xs \<noteq> []" and "fit (hd xs) \<noteq> fit (last xs)"
    and "sum_list (map (\<lambda>x. (fit x - fit (last xs)) / (fit (hd xs) - fit (last xs))) xs) \<noteq> 0"
    and "m = map (\<lambda>x. (fit x - fit (last xs)) / (fit (hd xs) - fit (last xs)) /
                 sum_list (map (\<lambda>x. (fit x - fit (last xs)) / (fit (hd xs) - fit (last xs))) xs)) xs"
  using assms
  by (auto simp: GSA_calculate_mass_def Let_def comp_def split: if_splits)

lemma GSA_calculate_mass_sum:
  assumes "GSA_calculate_mass xs = Inr m"
  shows "sum_list m = 1"
proof -
  let ?raw = "map (\<lambda>x. (fit x - fit (last xs)) / (fit (hd xs) - fit (last xs))) xs"
  have "m = map (\<lambda>v. v / sum_list ?raw) ?raw"
    using GSA_calculate_mass_Inr(4) [OF assms] by (simp add: comp_def)
  then have "sum_list m = sum_list ?raw / sum_list ?raw"
    by (simp only: sum_list_divide)
  then show ?thesis
    using GSA_calculate_mass_Inr(3) [OF assms] by simp
qed

lemma GSA_calculate_mass_zero_division:
  "GSA_calculate_mass xs = Inl ZeroDivisionError \<longleftrightarrow>
     xs \<noteq> [] \<and>
     (fit (hd xs) = fit (last xs) \<or>
      sum_list (map (\<lambda>x. (fit x - fit (last xs)) / (fit (hd xs) - fit (last xs))) xs) = 0)"
  by (auto simp: GSA_calculate_mass_def Let_def)

lemma GSA_calculate_mass_equal:
  assumes "xs \<noteq> []" and "\<forall>x\<in>set xs. fit x = c"
  shows "GSA_calculate_mass xs = Inl ZeroDivisionError"
proof -
  have "fit (hd xs) = c" and "fit (last xs) = c"
    using assms by simp_all
  then show ?thesis
    using assms(1) by (simp add: GSA_calculate_mass_zero_division)
qed

lemma sorted_fit_bounds:
  assumes "sorted (map fit xs)" and "x \<in> set xs"
  shows "fit (hd xs) \<le> fit x" and "fit x \<le> fit (last xs)"
proof -
  from assms(2) obtain i where i: "i < length xs" and x: "x = xs ! i"
    by (auto simp: in_set_conv_nth)
  then have ne: "xs \<noteq> []" by auto
  have "map fit xs ! 0 \<le> map fit xs ! i"
    using assms(1) i by (intro sorted_nth_mono) simp_all
  then show "fit (hd xs) \<le> fit x"
    using i x ne by (simp add: hd_conv_nth)
  have "map fit xs ! i \<le> map fit xs ! (length xs - 1)"
    using assms(1) i by (intro sorted_nth_mono) simp_all
  then show "fit x \<le> fit (last xs)"
    using i x ne by (simp add: last_conv_nth)
qed

lemma GSA_calculate_mass_sorted:
  assumes "xs \<noteq> []" and "sorted (map fit xs)" and "fit (hd xs) \<noteq> fit (last xs)"
  shows "\<exists>m. GSA_calculate_mass xs = Inr m"
proof -
  let ?b = "fit (hd xs)" and ?w = "fit (last xs)"
  let ?raw = "map (\<lambda>x. (fit x - ?w) / (?b - ?w)) xs"
  have "?b \<le> ?w"
    using sorted_fit_bounds(2) [OF assms(2), of "hd xs"] assms(1) by simp
  then have lt: "?b - ?w < 0" using assms(3) by simp
  have nonneg: "0 \<le> v" if "v \<in> set ?raw" for v
  proof -
    from that obtain x where "x \<in> set xs" and v: "v = (fit x - ?w) / (?b - ?w)" by auto
    then have "fit x - ?w \<le> 0"
      using sorted_fit_bounds(2) [OF assms(2)] by simp
    then show ?thesis
      using lt v by (simp add: divide_nonpos_neg)
  qed
  obtain y ys where xs: "xs = y # ys"
    using assms(1) by (cases xs) auto
  have "sum_list ?raw = (fit y - ?w) / (?b - ?w) + sum_list (map (\<lambda>x. (fit x - ?w) / (?b - ?w)) ys)"
    by (subst xs) simp
  moreover have "(fit y - ?w) / (?b - ?w) = 1"
    using lt xs by simp
  moreover have "0 \<le> sum_list (map (\<lambda>x. (fit x - ?w) / (?b - ?w)) ys)"
    using nonneg xs by (intro sum_list_nonneg) auto
  ultimately have "sum_list ?raw \<noteq> 0" by linarith
  then show ?thesis
    using assms(1,3) by (simp add: GSA_calculate_mass_def Let_def)
qed

text \<open>
  C10. The mass calculation divides by \<open>best - worst\<close>, the difference of the first and the
  last agent's fitness, and then by the sum of the raw masses, and guards neither divisor: it
  ends in a division by zero exactly when one of the two is zero. It returns masses only if
  the first and the last fitness differ, and a population whose agents all have the same
  fitness makes it divide by zero.
\<close>

theorem GSA_calculate_mass_unguarded:
  "(GSA_calculate_mass xs = Inl ZeroDivisionError \<longleftrightarrow>
      xs \<noteq> [] \<and>
      (fit (hd xs) = fit (last xs) \<or>
       sum_list (map (\<lambda>x. (fit x - fit (last xs)) / (fit (hd xs) - fit (last xs))) xs) = 0)) \<and>
   ((\<exists>m. GSA_calculate_mass xs = Inr m) \<longrightarrow> fit (hd xs) \<noteq> fit (last xs)) \<and>
   (xs \<noteq> [] \<and> (\<forall>x\<in>set xs. fit x = c) \<longrightarrow> GSA_calculate_mass xs = Inl ZeroDivisionError)"
  using GSA_calculate_mass_zero_division [of xs] GSA_calculate_mass_Inr(2) [of xs]
    GSA_calculate_mass_equal [of xs c]
  by blast

theorem GSA_calculate_mass_unguarded_witness:
  "GSA_calculate_mass [\<lparr>position = 0, fit = 3, lb = [], ub = []\<rparr>,
                       \<lparr>position = 1, fit = 3, lb = [], ub = []\<rparr>] = Inl ZeroDivisionError \<and>
   GSA_calculate_mass [\<lparr>position = 0, fit = 0, lb = [], ub = []\<rparr>,
                       \<lparr>position = 1, fit = 10, lb = [], ub = []\<rparr>] = Inr [1, 0] \<and>
   fit (hd [\<lparr>position = 0, fit = 0, lb = [], ub = []\<rparr>, \<lparr>position = 1, fit = 10, lb = [], ub = []\<rparr>])
     \<noteq> fit (last [\<lparr>position = 0, fit = 0, lb = [], ub = []\<rparr>,
                    \<lparr>position = 1, fit = 10, lb = [], ub = []\<rparr>])"
  using GSA_calculate_mass_unguarded
          [of "[\<lparr>position = 0, fit = 3, lb = [], ub = []\<rparr>, \<lparr>position = 1, fit = 3, lb = [], ub = []\<rparr>]" 3]
        GSA_calculate_mass_unguarded
          [of "[\<lparr>position = 0, fit = 0, lb = [], ub = []\<rparr>, \<lparr>position = 1, fit = 10, lb = [], ub = []\<rparr>]" 0]
  by (simp add: GSA_calculate_mass_def)

subsection \<open>Update of the gravitational search algorithm\<close>

lemma get_fit_set_position [simp]: "get_fit (set_position a v s) c = get_fit s c"
  by (simp add: get_fit_def set_position_def new_array_def)

lemma GSA_update_agent_step:
  "GSA_update_agent ext force mass (i, a) (vel, s) =
     (if i < length vel
      then Inr (vel[i := GSA_update_velocity ext i (force ! i) (mass ! i) (vel ! i)],
                set_position a
                  (GSA_update_position (get_position s a)
                     (GSA_update_velocity ext i (force ! i) (mass ! i) (vel ! i))) s)
      else Inl IndexError)"
  by (simp add: GSA_update_agent_def Let_def)

lemma GSA_update_loop:
  assumes "for_each (GSA_update_agent ext force mass) (enumerate k xs) (vel, s) = Inr (vel1, s1)"
  shows "length vel1 = length vel \<and>
         (\<forall>j<k. vel1 ! j = vel ! j) \<and>
         (\<forall>i<length xs.
            vel1 ! (k + i) =
              GSA_update_velocity ext (k + i) (force ! (k + i)) (mass ! (k + i)) (vel ! (k + i))) \<and>
         (\<forall>c. get_fit s1 c = get_fit s c)"
  using assms
proof (induction xs arbitrary: k vel s)
  case Nil
  then show ?case by simp
next
  case (Cons a xs)
  let ?v = "GSA_update_velocity ext k (force ! k) (mass ! k) (vel ! k)"
  let ?s = "set_position a (GSA_update_position (get_position s a) ?v) s"
  from Cons.prems have k: "k < length vel"
    by (auto simp: GSA_update_agent_step split: if_splits)
  with Cons.prems
  have rest: "for_each (GSA_update_agent ext force mass) (enumerate (Suc k) xs)
                (vel[k := ?v], ?s) = Inr (vel1, s1)"
    by (simp add: GSA_update_agent_step)
  note IH = Cons.IH [OF rest]
  have len: "length vel1 = length vel" using IH by simp
  have low: "\<forall>j<k. vel1 ! j = vel ! j" using IH by simp
  have atk: "vel1 ! k = ?v" using IH k by simp
  have high: "vel1 ! (Suc k + i) =
                GSA_update_velocity ext (Suc k + i) (force ! (Suc k + i)) (mass ! (Suc k + i))
                  (vel ! (Suc k + i))" if "i < length xs" for i
    using IH that by simp
  have "vel1 ! (k + i) =
          GSA_update_velocity ext (k + i) (force ! (k + i)) (mass ! (k + i)) (vel ! (k + i))"
    if "i < length (a # xs)" for i
  proof (cases i)
    case 0
    then show ?thesis using atk by simp
  next
    case (Suc i')
    then show ?thesis using high [of i'] that by simp
  qed
  moreover have "\<forall>c. get_fit s1 c = get_fit s c" using IH by simp
  ultimately show ?case using len low by blast
qed

lemma GSA_update_loop_succeeds:
  assumes "k + length xs \<le> length vel"
  shows "\<exists>w. for_each (GSA_update_agent ext force mass) (enumerate k xs) (vel, s) = Inr w"
  using assms
proof (induction xs arbitrary: k vel s)
  case Nil
  then show ?case by simp
next
  case (Cons a xs)
  let ?v = "GSA_update_velocity ext k (force ! k) (mass ! k) (vel ! k)"
  let ?s = "set_position a (GSA_update_position (get_position s a) ?v) s"
  have "Suc k + length xs \<le> length (vel[k := ?v])"
    using Cons.prems by simp
  from Cons.IH [OF this, of ?s] Cons.prems show ?case
    by (simp add: GSA_update_agent_step)
qed

lemma GSA_update_Inr:
  assumes "GSA_update self ext xs vel t s = Inr (xs1, vel1, s1)"
  shows "xs1 = sort_key (get_fit s) xs"
    and "\<exists>mass. GSA_calculate_mass (map (agents_of s) xs1) = Inr mass \<and>
           (\<forall>i<length xs.
              vel1 ! i =
                GSA_update_velocity ext i
                  (GSA_calculate_force ext (map (get_position s) xs1) mass
                     (G_hp self / (real t + 1)) ! i)
                  (mass ! i) (vel ! i))"
    and "length vel1 = length vel"
    and "\<forall>c. get_fit s1 c = get_fit s c"
proof -
  let ?xs = "sort_key (get_fit s) xs"
  let ?g = "G_hp self / (real t + 1)"
  from assms obtain mass where mass: "GSA_calculate_mass (map (agents_of s) ?xs) = Inr mass"
    by (auto simp: GSA_update_def Let_def split: sum.splits)
  let ?force = "GSA_calculate_force ext (map (get_position s) ?xs) mass ?g"
  from assms mass have xs1: "xs1 = ?xs"
    and loop: "for_each (GSA_update_agent ext ?force mass) (enumerate 0 ?xs) (vel, s) = Inr (vel1, s1)"
    by (auto simp: GSA_update_def Let_def split: sum.splits)
  note L = GSA_update_loop [OF loop]
  show "xs1 = ?xs" by (rule xs1)
  show "length vel1 = length vel" using L by simp
  show "\<forall>c. get_fit s1 c = get_fit s c" using L by simp
  have "\<forall>i<length xs. vel1 ! i = GSA_update_velocity ext i (?force ! i) (mass ! i) (vel ! i)"
    using L by simp
  then show "\<exists>mass. GSA_calculate_mass (map (agents_of s) xs1) = Inr mass \<and>
           (\<forall>i<length xs.
              vel1 ! i =
                GSA_update_velocity ext i
                  (GSA_calculate_force ext (map (get_position s) xs1) mass
                     (G_hp self / (real t + 1)) ! i)
                  (mass ! i) (vel ! i))"
    using mass xs1 by auto
qed

lemma GSA_update_succeeds:
  assumes "GSA_calculate_mass (map (agents_of s) (sort_key (get_fit s) xs)) = Inr mass"
    and "length xs \<le> length vel"
  shows "\<exists>w. GSA_update self ext xs vel t s = Inr w"
proof -
  let ?xs = "sort_key (get_fit s) xs"
  let ?g = "G_hp self / (real t + 1)"
  let ?force = "GSA_calculate_force ext (map (get_position s) ?xs) mass ?g"
  have "0 + length ?xs \<le> length vel" using assms(2) by simp
  from GSA_update_loop_succeeds [OF this, of ext ?force mass s] obtain w
    where "for_each (GSA_update_agent ext ?force mass) (enumerate 0 ?xs) (vel, s) = Inr w"
    by auto
  then show ?thesis
    using assms(1) by (cases w) (simp add: GSA_update_def Let_def)
qed

lemma sort_key_two:
  fixes f :: "'a \<Rightarrow> real"
  assumes "f b < f a"
  shows "sort_key f [a, b] = [b, a]"
  using assms by auto

lemma GSA_mass_two:
  assumes "get_fit s a = 10" and "get_fit s b = 0"
  shows "GSA_calculate_mass (map (agents_of s) (sort_key (get_fit s) [a, b])) = Inr [1, 0]"
  using assms by (simp add: GSA_calculate_mass_def get_fit_def)

text \<open>
  C5. The update of the gravitational search algorithm sorts the agents by fitness, ascending,
  and leaves the list in that order; it uses the gravity \<open>G / (iteration + 1)\<close> for the
  forces that enter the new velocities; the mass of an agent is
  \<open>(fit - worst) / (best - worst)\<close>, with \<open>best\<close> the first and \<open>worst\<close> the last fitness of
  the sorted list, divided by the sum of these quotients, so that the masses add up to one.
  For two agents of fitness 10 and 0 the agent of fitness 0 comes first and its mass is
  \<open>(0 - 10) / (0 - 10) = 1\<close> over the sum \<open>1 + 0\<close>, that is 1.
\<close>

theorem GSA_update_sorts_and_weighs:
  "(GSA_update self ext xs vel t s = Inr (xs1, vel1, s1) \<longrightarrow>
      xs1 = sort_key (get_fit s) xs \<and> sorted (map (get_fit s1) xs1) \<and> mset xs1 = mset xs \<and>
      (\<exists>mass. GSA_calculate_mass (map (agents_of s) xs1) = Inr mass \<and> sum_list mass = 1 \<and>
         (\<forall>i<length xs.
            mass ! i =
              (get_fit s (xs1 ! i) - get_fit s (last xs1)) / (get_fit s (hd xs1) - get_fit s (last xs1)) /
              (\<Sum>x\<leftarrow>xs1. (get_fit s x - get_fit s (last xs1)) /
                         (get_fit s (hd xs1) - get_fit s (last xs1))) \<and>
            vel1 ! i =
              GSA_update_velocity ext i
                (GSA_calculate_force ext (map (get_position s) xs1) mass (G_hp self / (real t + 1)) ! i)
                (mass ! i) (vel ! i)))) \<and>
   (get_fit s a = 10 \<and> get_fit s b = 0 \<longrightarrow>
      sort_key (get_fit s) [a, b] = [b, a] \<and>
      GSA_calculate_mass (map (agents_of s) (sort_key (get_fit s) [a, b])) = Inr [1, 0])"
proof (intro conjI impI)
  assume upd: "GSA_update self ext xs vel t s = Inr (xs1, vel1, s1)"
  note U = GSA_update_Inr [OF upd]
  show xs1: "xs1 = sort_key (get_fit s) xs" by (rule U(1))
  have "sorted (map (get_fit s) xs1)"
    unfolding xs1 by (rule sorted_sort_key)
  moreover have "map (get_fit s1) xs1 = map (get_fit s) xs1"
    using U(4) by simp
  ultimately show "sorted (map (get_fit s1) xs1)" by (simp only:)
  show "mset xs1 = mset xs"
    unfolding xs1 by simp
  from U(2) obtain mass where mass: "GSA_calculate_mass (map (agents_of s) xs1) = Inr mass"
    and vel1: "\<forall>i<length xs. vel1 ! i =
              GSA_update_velocity ext i
                (GSA_calculate_force ext (map (get_position s) xs1) mass (G_hp self / (real t + 1)) ! i)
                (mass ! i) (vel ! i)"
    by blast
  have len: "length xs1 = length xs" unfolding xs1 by simp
  have ne: "xs1 \<noteq> []"
    using GSA_calculate_mass_Inr(1) [OF mass] by simp
  have hd: "fit (hd (map (agents_of s) xs1)) = get_fit s (hd xs1)"
    and last: "fit (last (map (agents_of s) xs1)) = get_fit s (last xs1)"
    using ne by (simp_all add: get_fit_def hd_map last_map)
  have "mass ! i =
              (get_fit s (xs1 ! i) - get_fit s (last xs1)) / (get_fit s (hd xs1) - get_fit s (last xs1)) /
              (\<Sum>x\<leftarrow>xs1. (get_fit s x - get_fit s (last xs1)) /
                         (get_fit s (hd xs1) - get_fit s (last xs1)))" if "i < length xs" for i
    using that len
    by (subst GSA_calculate_mass_Inr(4) [OF mass]) (simp add: hd last comp_def get_fit_def)
  then show "\<exists>mass. GSA_calculate_mass (map (agents_of s) xs1) = Inr mass \<and> sum_list mass = 1 \<and>
         (\<forall>i<length xs.
            mass ! i =
              (get_fit s (xs1 ! i) - get_fit s (last xs1)) / (get_fit s (hd xs1) - get_fit s (last xs1)) /
              (\<Sum>x\<leftarrow>xs1. (get_fit s x - get_fit s (last xs1)) /
                         (get_fit s (hd xs1) - get_fit s (last xs1))) \<and>
            vel1 ! i =
              GSA_update_velocity ext i
                (GSA_calculate_force ext (map (get_position s) xs1) mass (G_hp self / (real t + 1)) ! i)
                (mass ! i) (vel ! i))"
    using mass vel1 GSA_calculate_mass_sum [OF mass] by blast
next
  assume "get_fit s a = 10 \<and> get_fit s b = 0"
  then show "sort_key (get_fit s) [a, b] = [b, a]"
    by (simp add: sort_key_two)
next
  assume "get_fit s a = 10 \<and> get_fit s b = 0"
  then show "GSA_calculate_mass (map (agents_of s) (sort_key (get_fit s) [a, b])) = Inr [1, 0]"
    by (intro GSA_mass_two) simp_all
qed

lemma example_GSA_update:
  "GSA_update \<lparr>G_hp = 2\<rparr> example_GSA_ext [0, 1] [[[0]], [[0]]] 0 example_store =
     Inr ([1, 0], [[[0]], [[0]]], set_position 0 [[1]] (set_position 1 [[2]] example_store))"
  by (simp add: GSA_update_def example_store_def example_GSA_ext_def get_fit_def
      GSA_calculate_mass_def GSA_calculate_force_def GSA_update_agent_step nd_scale_def nd_sub_def
      nd_add_def get_position_def GSA_update_velocity_def GSA_update_position_def set_position_def
      new_array_def)

theorem GSA_update_sorts_and_weighs_witness:
  "GSA_update \<lparr>G_hp = 2\<rparr> example_GSA_ext [0, 1] [[[0]], [[0]]] 0 example_store =
     Inr ([1, 0], [[[0]], [[0]]], set_position 0 [[1]] (set_position 1 [[2]] example_store)) \<and>
   get_fit example_store 0 = 10 \<and> get_fit example_store 1 = 0 \<and>
   sort_key (get_fit example_store) [0, 1] = [1, 0] \<and>
   GSA_calculate_mass (map (agents_of example_store) [1, 0]) = Inr [1, 0] \<and>
   sorted (map (get_fit (set_position 0 [[1]] (set_position 1 [[2]] example_store))) [1, 0])"
  using GSA_update_sorts_and_weighs
          [where self = "\<lparr>G_hp = 2\<rparr>" and ext = example_GSA_ext and xs = "[0, 1]"
             and vel = "[[[0]], [[0]]]" and t = 0 and s = example_store and ?xs1.0 = "[1, 0]"
             and ?vel1.0 = "[[[0]], [[0]]]"
             and ?s1.0 = "set_position 0 [[1]] (set_position 1 [[2]] example_store)"
             and a = 0 and b = 1]
    example_GSA_update
  by (simp add: example_store_def get_fit_def)

subsection \<open>The build step\<close>


lemma setattr_algorithm: "setattr c d ''algorithm'' v = Inr (d(''_algorithm'' \<mapsto> v))"
  by (cases c) (simp_all add: setattr_def Optimizer_algorithm_setter_def)

lemma setattr_hyperparams:
  "setattr c d ''hyperparams'' h =
     (if dict_or_none h then Inr (d(''_hyperparams'' \<mapsto> h))
      else Inl (TypeError ''`hyperparams` should be a dictionary''))"
  by (cases c) (simp_all add: setattr_def Optimizer_hyperparams_setter_def)

lemma setattr_built: "setattr c d ''built'' v = Inr (d(''_built'' \<mapsto> v))"
  by (cases c) (simp_all add: setattr_def Optimizer_built_setter_def)

lemma setattr_GSA_G:
  "setattr GSA d ''G'' v =
     (if \<not> is_number v then Inl (TypeError ''`G` should be a float or integer'')
      else if num v < 0 then Inl (ValueError ''`G` should be >= 0'')
      else Inr (d(''_G'' \<mapsto> v)))"
  by (simp add: setattr_def GSA_G_setter_def)

lemma setattr_BA_f_min:
  "setattr BA d ''f_min'' v =
     (if \<not> is_number v then Inl (TypeError ''`f_min` should be a float or integer'')
      else if num v < 0 then Inl (ValueError ''`f_min` should be >= 0'')
      else Inr (d(''_f_min'' \<mapsto> v)))"
  by (simp add: setattr_def BA_f_min_setter_def)

lemma setattr_BA_f_max:
  "setattr BA d ''f_max'' v =
     (if \<not> is_number v then Inl (TypeError ''`f_max` should be a float or integer'')
      else if num v < 0 then Inl (ValueError ''`f_max` should be >= 0'')
      else (case d ''_f_min'' of
              None \<Rightarrow> Inl (AttributeError ''_f_min'')
            | Some w \<Rightarrow>
                if \<not> is_number w then Inl BuiltinTypeError
                else if num v < num w then Inl (ValueError ''`f_max` should be >= `f_min`'')
                else Inr (d(''_f_max'' \<mapsto> v))))"
  by (simp add: setattr_def BA_f_max_setter_def)

lemma setattr_BA_A:
  "setattr BA d ''A'' v =
     (if \<not> is_number v then Inl (TypeError ''`A` should be a float or integer'')
      else if num v < 0 then Inl (ValueError ''`A` should be >= 0'')
      else Inr (d(''_A'' \<mapsto> v)))"
  by (simp add: setattr_def BA_A_setter_def)

lemma setattr_BA_r:
  "setattr BA d ''r'' v =
     (if \<not> is_number v then Inl (TypeError ''`r` should be a float or integer'')
      else if num v < 0 then Inl (ValueError ''`r` should be >= 0'')
      else Inr (d(''_r'' \<mapsto> v)))"
  by (simp add: setattr_def BA_r_setter_def)

lemma setattr_SBO_alpha:
  "setattr SBO d ''alpha'' v =
     (if \<not> is_number v then Inl (TypeError ''`alpha` should be a float or integer'')
      else if num v < 0 then Inl (ValueError ''`alpha` should be >= 0'')
      else Inr (d(''_alpha'' \<mapsto> v)))"
  by (simp add: setattr_def SBO_alpha_setter_def)

lemma setattr_SBO_p_mutation:
  "setattr SBO d ''p_mutation'' v =
     (if \<not> is_number v then Inl (TypeError ''`p_mutation` should be a float or integer'')
      else if num v < 0 \<or> num v > 1 then Inl (ValueError ''`p_mutation` should be between 0 and 1'')
      else Inr (d(''_p_mutation'' \<mapsto> v)))"
  by (simp add: setattr_def SBO_p_mutation_setter_def)

lemma setattr_SBO_z:
  "setattr SBO d ''z'' v =
     (if \<not> is_number v then Inl (TypeError ''`z` should be a float or integer'')
      else if num v < 0 \<or> num v > 1 then Inl (ValueError ''`z` should be between 0 and 1'')
      else Inr (d(''_z'' \<mapsto> v)))"
  by (simp add: setattr_def SBO_z_setter_def)





lemma Optimizer_build_dict:
  assumes "dict_or_none h"
  shows "Optimizer_build c d h =
           (case for_each (\<lambda>kv d2. setattr_key c d2 (fst kv) (snd kv)) (items h)
                   (d(''_hyperparams'' \<mapsto> h)) of
              Inl e \<Rightarrow> Inl e
            | Inr d1 \<Rightarrow>
                if d1 ''_algorithm'' = None then Inl (AttributeError ''_algorithm'')
                else Inr (d1(''_built'' \<mapsto> PyBool True)))"
  using assms
  by (auto simp: Optimizer_build_def setattr_hyperparams setattr_built read_attr_def
      split: sum.splits option.splits)


lemma Optimizer_init_initialised: "Optimizer_init c = Inr initialised"
  by (simp add: Optimizer_init_def setattr_algorithm setattr_hyperparams setattr_built initialised_def)

text \<open>An object that \<^verbatim>\<open>Optimizer.__init__\<close> has not initialised has no \<^verbatim>\<open>_algorithm\<close>: the build
  step sets \<^verbatim>\<open>built\<close> on it and raises where its last statement reads the algorithm name.\<close>

lemma Optimizer_build_without_algorithm:
  "Optimizer_build GSA new_instance PyNone = Inl (AttributeError ''_algorithm'')"
  by (simp add: Optimizer_build_dict new_instance_def)




text \<open>
  The constructors call \<^verbatim>\<open>self.build(params)\<close>, and no class binds the name \<^verbatim>\<open>build\<close>: the
  base class binds \<^verbatim>\<open>_build\<close>.
\<close>

lemma GSA_init_fails: "GSA_init params = Inl (AttributeError ''build'')"
  by (simp add: GSA_init_def Optimizer_init_initialised setattr_GSA_G call_build_def getattr_def)

lemma BA_init_fails: "BA_init params = Inl (AttributeError ''build'')"
  by (simp add: BA_init_def Optimizer_init_initialised setattr_BA_f_min setattr_BA_f_max
      setattr_BA_A setattr_BA_r call_build_def getattr_def)

lemma SBO_init_fails: "SBO_init params = Inl (AttributeError ''build'')"
  by (simp add: SBO_init_def Optimizer_init_initialised setattr_SBO_alpha setattr_SBO_p_mutation
      setattr_SBO_z call_build_def getattr_def)

subsection \<open>Evaluation and the best agent\<close>

lemma evaluate_agent_other:
  "c \<noteq> a \<Longrightarrow> c \<noteq> b \<Longrightarrow> agents_of (evaluate_agent f b a s) c = agents_of s c"
  by (simp add: evaluate_agent_def set_fit_def set_position_def new_array_def Let_def)

lemma evaluate_agent_arrays:
  "n < next_addr s \<Longrightarrow> arrays_of (evaluate_agent f b a s) n = arrays_of s n"
  by (simp add: evaluate_agent_def set_fit_def set_position_def new_array_def Let_def)

lemma evaluate_agent_next_addr:
  "next_addr s \<le> next_addr (evaluate_agent f b a s)"
  by (simp add: evaluate_agent_def set_fit_def set_position_def new_array_def Let_def)

lemma evaluate_agent_self:
  "a \<noteq> b \<Longrightarrow> agents_of (evaluate_agent f b a s) a = (agents_of s a)\<lparr>fit := f (get_position s a)\<rparr>"
  by (simp add: evaluate_agent_def set_fit_def set_position_def new_array_def Let_def)

lemma evaluate_agent_improves:
  assumes "a \<noteq> b" and "f (get_position s a) < get_fit s b"
  shows "agents_of (evaluate_agent f b a s) b =
           (agents_of s b)\<lparr>position := next_addr s, fit := f (get_position s a)\<rparr>"
    and "arrays_of (evaluate_agent f b a s) (next_addr s) = get_position s a"
    and "next_addr (evaluate_agent f b a s) = Suc (next_addr s)"
  using assms
  by (simp_all add: evaluate_agent_def set_fit_def set_position_def new_array_def Let_def
      get_fit_def get_position_def)

lemma evaluate_agent_keeps:
  assumes "a \<noteq> b" and "\<not> f (get_position s a) < get_fit s b"
  shows "agents_of (evaluate_agent f b a s) b = agents_of s b"
    and "arrays_of (evaluate_agent f b a s) = arrays_of s"
    and "next_addr (evaluate_agent f b a s) = next_addr s"
  using assms
  by (simp_all add: evaluate_agent_def set_fit_def set_position_def new_array_def Let_def
      get_fit_def get_position_def)

lemma evaluate_agent_best_fit:
  assumes "a \<noteq> b"
  shows "get_fit (evaluate_agent f b a s) b = min (get_fit s b) (f (get_position s a))"
  using assms
  by (simp add: evaluate_agent_def set_fit_def set_position_def new_array_def Let_def
      get_fit_def get_position_def min_def)

lemma evaluate_agent_position:
  "c \<noteq> b \<Longrightarrow> position (agents_of (evaluate_agent f b a s) c) = position (agents_of s c)"
  by (simp add: evaluate_agent_def set_fit_def set_position_def new_array_def Let_def)

lemma evaluate_agent_get_position:
  assumes "c \<noteq> b" and "position (agents_of s c) < next_addr s"
  shows "get_position (evaluate_agent f b a s) c = get_position s c"
  using assms by (simp add: get_position_def evaluate_agent_position evaluate_agent_arrays)

lemma fold_evaluate_other:
  "c \<notin> set xs \<Longrightarrow> c \<noteq> b \<Longrightarrow> agents_of (fold (evaluate_agent f b) xs s) c = agents_of s c"
  by (induction xs arbitrary: s) (simp_all add: evaluate_agent_other)

lemma fold_evaluate_position:
  "c \<noteq> b \<Longrightarrow> position (agents_of (fold (evaluate_agent f b) xs s) c) = position (agents_of s c)"
  by (induction xs arbitrary: s) (simp_all add: evaluate_agent_position)

lemma fold_evaluate_next_addr:
  "next_addr s \<le> next_addr (fold (evaluate_agent f b) xs s)"
proof (induction xs arbitrary: s)
  case Nil
  show ?case by simp
next
  case (Cons a xs)
  have "next_addr s \<le> next_addr (evaluate_agent f b a s)"
    by (rule evaluate_agent_next_addr)
  also have "\<dots> \<le> next_addr (fold (evaluate_agent f b) xs (evaluate_agent f b a s))"
    by (rule Cons.IH)
  finally show ?case by simp
qed

lemma fold_evaluate_arrays:
  "n < next_addr s \<Longrightarrow> arrays_of (fold (evaluate_agent f b) xs s) n = arrays_of s n"
proof (induction xs arbitrary: s)
  case Nil
  show ?case by simp
next
  case (Cons a xs)
  have "n < next_addr (evaluate_agent f b a s)"
    using Cons.prems evaluate_agent_next_addr [of s f b a] by simp
  then show ?case
    using Cons.IH [of "evaluate_agent f b a s"] Cons.prems
    by (simp add: evaluate_agent_arrays)
qed

lemma fold_evaluate_get_position:
  assumes "c \<noteq> b" and "position (agents_of s c) < next_addr s"
  shows "get_position (fold (evaluate_agent f b) xs s) c = get_position s c"
  using assms by (simp add: get_position_def fold_evaluate_position fold_evaluate_arrays)

lemma fold_evaluate_fit:
  assumes "b \<notin> set xs" and "a \<in> set xs"
    and "\<forall>c\<in>set xs. position (agents_of s c) < next_addr s"
  shows "get_fit (fold (evaluate_agent f b) xs s) a = f (get_position s a)"
  using assms
proof (induction xs arbitrary: s)
  case Nil
  then show ?case by simp
next
  case (Cons x xs)
  let ?s1 = "evaluate_agent f b x s"
  have xb: "x \<noteq> b" and ab: "a \<noteq> b"
    using Cons.prems by auto
  have alloc: "\<forall>c\<in>set xs. position (agents_of ?s1 c) < next_addr ?s1"
  proof
    fix c assume "c \<in> set xs"
    then have "c \<noteq> b" and "position (agents_of s c) < next_addr s"
      using Cons.prems by auto
    then show "position (agents_of ?s1 c) < next_addr ?s1"
      using evaluate_agent_next_addr [of s f b x] by (simp add: evaluate_agent_position)
  qed
  have "position (agents_of s a) < next_addr s"
    using Cons.prems by auto
  then have pos: "get_position ?s1 a = get_position s a"
    using ab by (simp add: evaluate_agent_get_position)
  show ?case
  proof (cases "a \<in> set xs")
    case True
    then have "get_fit (fold (evaluate_agent f b) xs ?s1) a = f (get_position ?s1 a)"
      using Cons.IH [of ?s1] Cons.prems alloc by simp
    then show ?thesis by (simp add: pos)
  next
    case False
    then have "a = x" using Cons.prems by simp
    have "agents_of (fold (evaluate_agent f b) xs ?s1) a = agents_of ?s1 a"
      using False ab by (simp add: fold_evaluate_other)
    then show ?thesis
      using xb \<open>a = x\<close> by (simp add: get_fit_def evaluate_agent_self)
  qed
qed

lemma fold_evaluate_best_mono:
  "b \<notin> set xs \<Longrightarrow> get_fit (fold (evaluate_agent f b) xs s) b \<le> get_fit s b"
proof (induction xs arbitrary: s)
  case Nil
  show ?case by simp
next
  case (Cons a xs)
  have "get_fit (fold (evaluate_agent f b) xs (evaluate_agent f b a s)) b
          \<le> get_fit (evaluate_agent f b a s) b"
    using Cons by simp
  also have "\<dots> \<le> get_fit s b"
    using Cons.prems by (simp add: evaluate_agent_best_fit)
  finally show ?case by simp
qed

lemma fold_evaluate_best_fit:
  assumes "b \<notin> set xs" and "\<forall>c\<in>set xs. position (agents_of s c) < next_addr s"
  shows "get_fit (fold (evaluate_agent f b) xs s) b =
           fold (\<lambda>a m. min m (f (get_position s a))) xs (get_fit s b)"
  using assms
proof (induction xs arbitrary: s)
  case Nil
  show ?case by simp
next
  case (Cons x xs)
  let ?s1 = "evaluate_agent f b x s"
  have xb: "x \<noteq> b" using Cons.prems by auto
  have alloc: "\<forall>c\<in>set xs. position (agents_of ?s1 c) < next_addr ?s1"
  proof
    fix c assume "c \<in> set xs"
    then have "c \<noteq> b" and "position (agents_of s c) < next_addr s"
      using Cons.prems by auto
    then show "position (agents_of ?s1 c) < next_addr ?s1"
      using evaluate_agent_next_addr [of s f b x] by (simp add: evaluate_agent_position)
  qed
  have same: "fold (\<lambda>a m. min m (f (get_position ?s1 a))) xs m0
                = fold (\<lambda>a m. min m (f (get_position s a))) xs m0" for m0
  proof (rule fold_cong)
    fix c assume "c \<in> set xs"
    then have "c \<noteq> b" and "position (agents_of s c) < next_addr s"
      using Cons.prems by auto
    then show "(\<lambda>m. min m (f (get_position ?s1 c))) = (\<lambda>m. min m (f (get_position s c)))"
      by (simp add: evaluate_agent_get_position)
  qed simp_all
  have "get_fit (fold (evaluate_agent f b) xs ?s1) b
          = fold (\<lambda>a m. min m (f (get_position ?s1 a))) xs (get_fit ?s1 b)"
    using Cons.IH [of ?s1] Cons.prems alloc by simp
  then show ?case
    using xb by (simp add: same evaluate_agent_best_fit)
qed

lemma evaluate_step:
  fixes f :: "ndarray \<Rightarrow> real"
  assumes ab: "a \<noteq> b" and alloc: "position (agents_of s1 a) < next_addr s1"
  defines "s2 \<equiv> evaluate_agent f b a s1"
  shows "get_fit s2 a = f (get_position s1 a)"
    and "get_position s2 a = get_position s1 a"
    and "get_fit s2 a < get_fit s1 b \<Longrightarrow>
           get_fit s2 b = get_fit s2 a \<and> get_position s2 b = get_position s2 a \<and>
           position (agents_of s2 b) \<noteq> position (agents_of s2 a)"
    and "\<not> get_fit s2 a < get_fit s1 b \<Longrightarrow> agents_of s2 b = agents_of s1 b \<and> arrays_of s2 = arrays_of s1"
proof -
  show fit_a: "get_fit s2 a = f (get_position s1 a)"
    using ab by (simp add: s2_def get_fit_def evaluate_agent_self)
  show pos_a: "get_position s2 a = get_position s1 a"
    using ab alloc by (simp add: s2_def evaluate_agent_get_position)
  have posa: "position (agents_of s2 a) = position (agents_of s1 a)"
    using ab by (simp add: s2_def evaluate_agent_position)
  {
    assume "get_fit s2 a < get_fit s1 b"
    then have lt: "f (get_position s1 a) < get_fit s1 b" by (simp add: fit_a)
    note I = evaluate_agent_improves [of a b f s1, OF ab lt]
    have "get_fit s2 b = get_fit s2 a"
      using I(1) by (simp add: s2_def get_fit_def fit_a [unfolded s2_def get_fit_def])
    moreover have "get_position s2 b = get_position s1 a"
      using I(1,2) by (simp add: s2_def get_position_def)
    moreover have "position (agents_of s2 b) = next_addr s1"
      using I(1) by (simp add: s2_def)
    ultimately show "get_fit s2 b = get_fit s2 a \<and> get_position s2 b = get_position s2 a \<and>
           position (agents_of s2 b) \<noteq> position (agents_of s2 a)"
      using pos_a posa alloc by simp
  }
  {
    assume "\<not> get_fit s2 a < get_fit s1 b"
    then have "\<not> f (get_position s1 a) < get_fit s1 b" by (simp add: fit_a)
    from evaluate_agent_keeps [of a b f s1, OF ab this]
    show "agents_of s2 b = agents_of s1 b \<and> arrays_of s2 = arrays_of s1"
      by (simp add: s2_def)
  }
qed

lemma fold_evaluate_alloc:
  assumes "c \<noteq> b" and "position (agents_of s c) < next_addr s"
  shows "position (agents_of (fold (evaluate_agent f b) xs s) c) < next_addr (fold (evaluate_agent f b) xs s)"
  using assms fold_evaluate_next_addr [of s f b xs]
  by (simp add: fold_evaluate_position)

lemma get_fit_agent_clip: "get_fit (agent_clip_by_bound a s) c = get_fit s c"
  by (simp add: agent_clip_by_bound_def get_fit_set_position)

lemma get_fit_space_clip: "get_fit (fold agent_clip_by_bound xs s) c = get_fit s c"
  by (induction xs arbitrary: s) (simp_all add: get_fit_agent_clip)

lemma call_evaluate_eq:
  "call_evaluate c hook function sp s = Inr (Optimizer_evaluate hook sp function s)"
  by (cases c) (simp_all add: call_evaluate_def getattr_def)

lemma Optimizer_evaluate_mono:
  assumes "best_agent sp \<notin> set (agents sp)"
    and "get_fit (pre_evaluate hook s) (best_agent sp) \<le> get_fit s (best_agent sp)"
  shows "get_fit (Optimizer_evaluate hook sp f s) (best_agent sp) \<le> get_fit s (best_agent sp)"
proof -
  have "get_fit (Optimizer_evaluate hook sp f s) (best_agent sp)
          \<le> get_fit (pre_evaluate hook s) (best_agent sp)"
    using assms(1) by (simp add: Optimizer_evaluate_def evaluate_body_def fold_evaluate_best_mono)
  then show ?thesis using assms(2) by simp
qed

lemma run_iteration_mono:
  assumes it: "run_iteration upd (call_evaluate c hook f) sbo t ((x, sp, s), h) = Inr ((x1, sp1, s1), h1)"
    and frame: "\<forall>x' sp' s'. upd t (x, sp, s) = Inr (x', sp', s') \<longrightarrow>
                  best_agent sp' = best_agent sp \<and> best_agent sp \<notin> set (agents sp') \<and>
                  get_fit s' (best_agent sp) = get_fit s (best_agent sp)"
    and hook: "\<forall>k st. hook = Some k \<longrightarrow> get_fit (k st) (best_agent sp) \<le> get_fit st (best_agent sp)"
  shows "get_fit s1 (best_agent sp1) \<le> get_fit s (best_agent sp) \<and> best_agent sp1 = best_agent sp"
proof -
  from it obtain x' sp' s' where u: "upd t (x, sp, s) = Inr (x', sp', s')"
    by (auto simp: run_iteration_def split: sum.splits)
  with it have sp1: "sp1 = sp'"
    and s1: "s1 = Optimizer_evaluate hook sp' f (space_clip_by_bound sp' s')"
    by (auto simp: run_iteration_def call_evaluate_eq)
  from frame u have b: "best_agent sp' = best_agent sp"
    and nb: "best_agent sp' \<notin> set (agents sp')"
    and fit: "get_fit s' (best_agent sp) = get_fit s (best_agent sp)"
    by auto
  let ?s2 = "space_clip_by_bound sp' s'"
  have "get_fit (pre_evaluate hook ?s2) (best_agent sp') \<le> get_fit ?s2 (best_agent sp')"
    using hook b by (cases hook) (simp_all add: pre_evaluate_def)
  from Optimizer_evaluate_mono [OF nb this]
  have "get_fit s1 (best_agent sp') \<le> get_fit ?s2 (best_agent sp')"
    by (simp add: s1)
  also have "\<dots> = get_fit s' (best_agent sp')"
    by (simp add: space_clip_by_bound_def get_fit_space_clip)
  finally show ?thesis
    using b fit sp1 by simp
qed

text \<open>
  C1. In a space whose best agent is not one of its agents, a call of the evaluate routine
  sets the fitness of every agent to the function at its position, which it leaves as it is.
  Agent by agent, the best agent receives the agent's fitness and a copy of its position, in
  an array of its own, exactly when the agent's fitness is below the best agent's; otherwise
  the best agent and all arrays stay as they are. The best agent's fitness after the call is
  the minimum of its fitness before and the agents' fitness, so it does not increase; and it
  does not increase over an iteration of the run loop whose update call leaves the best agent
  alone, when the hook, if there is one, does not raise it.
\<close>

theorem evaluate_tracks_best:
  assumes "best_agent sp \<notin> set (agents sp)"
    and "\<forall>a\<in>set (agents sp). position (agents_of (pre_evaluate hook s) a) < next_addr (pre_evaluate hook s)"
  shows "(\<forall>a\<in>set (agents sp).
            get_fit (Optimizer_evaluate hook sp f s) a = f (get_position (Optimizer_evaluate hook sp f s) a) \<and>
            get_position (Optimizer_evaluate hook sp f s) a = get_position (pre_evaluate hook s) a) \<and>
         (\<forall>pre a post. agents sp = pre @ a # post \<longrightarrow>
            (let s1 = fold (evaluate_agent f (best_agent sp)) pre (pre_evaluate hook s);
                 s2 = evaluate_agent f (best_agent sp) a s1
             in Optimizer_evaluate hook sp f s = fold (evaluate_agent f (best_agent sp)) post s2 \<and>
                get_fit s2 a = f (get_position (pre_evaluate hook s) a) \<and>
                (get_fit s2 a < get_fit s1 (best_agent sp) \<longrightarrow>
                   get_fit s2 (best_agent sp) = get_fit s2 a \<and>
                   get_position s2 (best_agent sp) = get_position s2 a \<and>
                   position (agents_of s2 (best_agent sp)) \<noteq> position (agents_of s2 a)) \<and>
                (\<not> get_fit s2 a < get_fit s1 (best_agent sp) \<longrightarrow>
                   agents_of s2 (best_agent sp) = agents_of s1 (best_agent sp) \<and>
                   arrays_of s2 = arrays_of s1))) \<and>
         get_fit (Optimizer_evaluate hook sp f s) (best_agent sp) =
           fold (\<lambda>a m. min m (f (get_position (pre_evaluate hook s) a))) (agents sp)
             (get_fit (pre_evaluate hook s) (best_agent sp)) \<and>
         get_fit (Optimizer_evaluate hook sp f s) (best_agent sp) \<le> get_fit (pre_evaluate hook s) (best_agent sp) \<and>
         (run_iteration upd (call_evaluate c hook f) sbo t ((x, sp0, st0), h) = Inr ((x1, sp1, st1), h1) \<and>
          (\<forall>x' sp' s'. upd t (x, sp0, st0) = Inr (x', sp', s') \<longrightarrow>
             best_agent sp' = best_agent sp0 \<and> best_agent sp0 \<notin> set (agents sp') \<and>
             get_fit s' (best_agent sp0) = get_fit st0 (best_agent sp0)) \<and>
          (\<forall>k st. hook = Some k \<longrightarrow> get_fit (k st) (best_agent sp0) \<le> get_fit st (best_agent sp0)) \<longrightarrow>
          get_fit st1 (best_agent sp1) \<le> get_fit st0 (best_agent sp0))"
proof -
  let ?b = "best_agent sp" and ?s0 = "pre_evaluate hook s"
  let ?s' = "Optimizer_evaluate hook sp f s"
  have s': "?s' = fold (evaluate_agent f ?b) (agents sp) ?s0"
    by (simp add: Optimizer_evaluate_def evaluate_body_def)
  have A: "\<forall>a\<in>set (agents sp). get_fit ?s' a = f (get_position ?s' a) \<and> get_position ?s' a = get_position ?s0 a"
  proof
    fix a assume a: "a \<in> set (agents sp)"
    then have "a \<noteq> ?b" and "position (agents_of ?s0 a) < next_addr ?s0"
      using assms by auto
    then have "get_position ?s' a = get_position ?s0 a"
      by (simp add: s' fold_evaluate_get_position)
    moreover have "get_fit ?s' a = f (get_position ?s0 a)"
      unfolding s' using assms a by (intro fold_evaluate_fit) auto
    ultimately show "get_fit ?s' a = f (get_position ?s' a) \<and> get_position ?s' a = get_position ?s0 a"
      by simp
  qed
  have B: "\<forall>pre a post. agents sp = pre @ a # post \<longrightarrow>
            (let s1 = fold (evaluate_agent f ?b) pre ?s0;
                 s2 = evaluate_agent f ?b a s1
             in ?s' = fold (evaluate_agent f ?b) post s2 \<and>
                get_fit s2 a = f (get_position ?s0 a) \<and>
                (get_fit s2 a < get_fit s1 ?b \<longrightarrow>
                   get_fit s2 ?b = get_fit s2 a \<and>
                   get_position s2 ?b = get_position s2 a \<and>
                   position (agents_of s2 ?b) \<noteq> position (agents_of s2 a)) \<and>
                (\<not> get_fit s2 a < get_fit s1 ?b \<longrightarrow>
                   agents_of s2 ?b = agents_of s1 ?b \<and>
                   arrays_of s2 = arrays_of s1))"
  proof (intro allI impI)
    fix pre a post assume split: "agents sp = pre @ a # post"
    let ?s1 = "fold (evaluate_agent f ?b) pre ?s0"
    let ?s2 = "evaluate_agent f ?b a ?s1"
    have ab: "a \<noteq> ?b" and al0: "position (agents_of ?s0 a) < next_addr ?s0"
      using assms split by auto
    have al1: "position (agents_of ?s1 a) < next_addr ?s1"
      using ab al0 by (rule fold_evaluate_alloc)
    have p1: "get_position ?s1 a = get_position ?s0 a"
      using ab al0 by (simp add: fold_evaluate_get_position)
    note E = evaluate_step [OF ab al1, of f]
    have "?s' = fold (evaluate_agent f ?b) post ?s2"
      by (simp add: s' split)
    moreover have "get_fit ?s2 a = f (get_position ?s0 a)"
      using E(1) p1 by simp
    ultimately show "let s1 = ?s1; s2 = evaluate_agent f ?b a s1
             in ?s' = fold (evaluate_agent f ?b) post s2 \<and>
                get_fit s2 a = f (get_position ?s0 a) \<and>
                (get_fit s2 a < get_fit s1 ?b \<longrightarrow>
                   get_fit s2 ?b = get_fit s2 a \<and>
                   get_position s2 ?b = get_position s2 a \<and>
                   position (agents_of s2 ?b) \<noteq> position (agents_of s2 a)) \<and>
                (\<not> get_fit s2 a < get_fit s1 ?b \<longrightarrow>
                   agents_of s2 ?b = agents_of s1 ?b \<and>
                   arrays_of s2 = arrays_of s1)"
      using E(3) E(4) unfolding Let_def by blast
  qed
  have C: "get_fit ?s' ?b = fold (\<lambda>a m. min m (f (get_position ?s0 a))) (agents sp) (get_fit ?s0 ?b)"
    unfolding s' using assms by (intro fold_evaluate_best_fit) auto
  have D: "get_fit ?s' ?b \<le> get_fit ?s0 ?b"
    unfolding s' using assms(1) by (rule fold_evaluate_best_mono)
  have E: "run_iteration upd (call_evaluate c hook f) sbo t ((x, sp0, st0), h) = Inr ((x1, sp1, st1), h1) \<and>
          (\<forall>x' sp' s'. upd t (x, sp0, st0) = Inr (x', sp', s') \<longrightarrow>
             best_agent sp' = best_agent sp0 \<and> best_agent sp0 \<notin> set (agents sp') \<and>
             get_fit s' (best_agent sp0) = get_fit st0 (best_agent sp0)) \<and>
          (\<forall>k st. hook = Some k \<longrightarrow> get_fit (k st) (best_agent sp0) \<le> get_fit st (best_agent sp0)) \<longrightarrow>
          get_fit st1 (best_agent sp1) \<le> get_fit st0 (best_agent sp0)"
    using run_iteration_mono [of upd c hook f sbo t x sp0 st0 h x1 sp1 st1 h1] by blast
  from A B C D E show ?thesis by blast
qed

lemma example_evaluate:
  "Optimizer_evaluate None example_space example_function example_store =
     set_fit 1 4 (set_fit 2 1 (set_position 2 [[1]] (set_fit 0 1 example_store)))"
  by (simp add: Optimizer_evaluate_def evaluate_body_def pre_evaluate_def example_space_def
      example_store_def example_function_def evaluate_agent_def set_fit_def set_position_def
      new_array_def get_fit_def get_position_def Let_def)

lemma example_GSA_apply_update:
  "GSA_apply_update \<lparr>G_hp = 2\<rparr> (\<lambda>t. example_GSA_ext) 0 ([[[0]], [[0]]], example_space, example_store) =
     Inr ([[[0]], [[0]]], example_space\<lparr>agents := [1, 0]\<rparr>,
          set_position 0 [[1]] (set_position 1 [[2]] example_store))"
  by (simp add: GSA_apply_update_def example_GSA_update [unfolded One_nat_def] example_space_def)

theorem evaluate_tracks_best_witness:
  "best_agent example_space \<notin> set (agents example_space) \<and>
   agents example_space = [0, 1] \<and>
   position (agents_of (pre_evaluate None example_store) 0) < next_addr (pre_evaluate None example_store) \<and>
   position (agents_of (pre_evaluate None example_store) 1) < next_addr (pre_evaluate None example_store) \<and>
   Optimizer_evaluate None example_space example_function example_store =
     set_fit 1 4 (set_fit 2 1 (set_position 2 [[1]] (set_fit 0 1 example_store))) \<and>
   get_fit (Optimizer_evaluate None example_space example_function example_store) 0 = 1 \<and>
   get_fit (Optimizer_evaluate None example_space example_function example_store) 1 = 4 \<and>
   get_fit (Optimizer_evaluate None example_space example_function example_store) 2 = 1 \<and>
   get_fit example_store 2 = 100 \<and>
   get_position (Optimizer_evaluate None example_space example_function example_store) 2 = [[1]] \<and>
   get_fit
     (Optimizer_evaluate None (example_space\<lparr>agents := [1, 0]\<rparr>) example_function
        (space_clip_by_bound (example_space\<lparr>agents := [1, 0]\<rparr>)
           (set_position 0 [[1]] (set_position 1 [[2]] example_store)))) 2 \<le> 100"
  using evaluate_tracks_best
    [where sp = example_space and hook = None and s = example_store and f = example_function
       and upd = "GSA_apply_update \<lparr>G_hp = 2\<rparr> (\<lambda>t. example_GSA_ext)" and c = GSA and sbo = False
       and t = 0 and x = "[[[0]], [[0]]]" and ?sp0.0 = example_space and ?st0.0 = example_store
       and h = "[]" and ?x1.0 = "[[[0]], [[0]]]" and ?sp1.0 = "example_space\<lparr>agents := [1, 0]\<rparr>"
       and ?st1.0 = "Optimizer_evaluate None (example_space\<lparr>agents := [1, 0]\<rparr>) example_function
                      (space_clip_by_bound (example_space\<lparr>agents := [1, 0]\<rparr>)
                         (set_position 0 [[1]] (set_position 1 [[2]] example_store)))"
       and ?h1.0 = "dump False (example_space\<lparr>agents := [1, 0]\<rparr>)
                      (Optimizer_evaluate None (example_space\<lparr>agents := [1, 0]\<rparr>) example_function
                         (space_clip_by_bound (example_space\<lparr>agents := [1, 0]\<rparr>)
                            (set_position 0 [[1]] (set_position 1 [[2]] example_store)))) []"]
    example_evaluate example_GSA_apply_update
  apply (simp add: run_iteration_def call_evaluate_eq pre_evaluate_def)
  apply (simp add: example_space_def example_store_def get_fit_def get_position_def set_fit_def set_position_def new_array_def)
  done

subsection \<open>Update of the bat algorithm\<close>

lemma set_position_frame:
  "next_addr (set_position a v s) = Suc (next_addr s)"
  "c \<noteq> a \<Longrightarrow> agents_of (set_position a v s) c = agents_of s c"
  "agents_of (set_position a v s) a = (agents_of s a)\<lparr>position := next_addr s\<rparr>"
  "n \<noteq> next_addr s \<Longrightarrow> arrays_of (set_position a v s) n = arrays_of s n"
  "arrays_of (set_position a v s) (next_addr s) = v"
  by (simp_all add: set_position_def new_array_def)

lemma set_fit_frame:
  "next_addr (set_fit a x s) = next_addr s"
  "c \<noteq> a \<Longrightarrow> agents_of (set_fit a x s) c = agents_of s c"
  "agents_of (set_fit a x s) a = (agents_of s a)\<lparr>fit := x\<rparr>"
  "arrays_of (set_fit a x s) = arrays_of s"
  by (simp_all add: set_fit_def)

lemma agent_clip_frame:
  "next_addr (agent_clip_by_bound a s) = Suc (next_addr s)"
  "c \<noteq> a \<Longrightarrow> agents_of (agent_clip_by_bound a s) c = agents_of s c"
  "agents_of (agent_clip_by_bound a s) a = (agents_of s a)\<lparr>position := next_addr s\<rparr>"
  "n \<noteq> next_addr s \<Longrightarrow> arrays_of (agent_clip_by_bound a s) n = arrays_of s n"
  by (simp_all add: agent_clip_by_bound_def set_position_frame)

lemma deepcopy_agent_frame:
  "fst (deepcopy_agent a s) = Suc (next_addr s)"
  "next_addr (snd (deepcopy_agent a s)) = Suc (Suc (next_addr s))"
  "c \<noteq> Suc (next_addr s) \<Longrightarrow> agents_of (snd (deepcopy_agent a s)) c = agents_of s c"
  "agents_of (snd (deepcopy_agent a s)) (Suc (next_addr s)) = (agents_of s a)\<lparr>position := next_addr s\<rparr>"
  "n \<noteq> next_addr s \<Longrightarrow> arrays_of (snd (deepcopy_agent a s)) n = arrays_of s n"
  "arrays_of (snd (deepcopy_agent a s)) (next_addr s) = get_position s a"
  by (simp_all add: deepcopy_agent_def new_array_def new_agent_def)

lemma BA_update_agent_step:
  "BA_update_agent self function iteration dr (i, a) st =
     (if \<not> (i < length (frequency st) \<and> i < length (velocity st) \<and>
             i < length (pulse_rate st) \<and> i < length (loudness st))
      then Inl IndexError
      else
        let st6 = BA_move_agent self function dr i a st
        in if p_uniform dr i < loudness st6 ! i \<and>
              get_fit (heap st6) a < get_fit (heap st6) (local_best st6)
           then Inr (st6\<lparr>local_best := fst (deepcopy_agent a (heap st6)),
                          heap := snd (deepcopy_agent a (heap st6)),
                          pulse_rate := (pulse_rate st6)
                            [i := r_hp self * (1 - exp (- 0.9 * real iteration))],
                          loudness := (loudness st6)[i := A_hp self * 0.9]\<rparr>)
           else Inr st6)"
  by (simp add: BA_update_agent_def Let_def split_beta)

lemma BA_move_agent_fields:
  "frequency (BA_move_agent self f dr i a st) =
     (frequency st)[i := BA_update_frequency (beta_uniform dr i) (f_min self) (f_max self)]"
  "length (velocity (BA_move_agent self f dr i a st)) = length (velocity st)"
  "loudness (BA_move_agent self f dr i a st) = loudness st"
  "pulse_rate (BA_move_agent self f dr i a st) = pulse_rate st"
  "local_best (BA_move_agent self f dr i a st) = local_best st"
  "walked (BA_move_agent self f dr i a st) =
     walked st @ (if p_uniform dr i > pulse_rate st ! i then [i] else [])"
  by (simp_all add: BA_move_agent_def Let_def)

lemma BA_move_agent_heap:
  "next_addr (heap st) \<le> next_addr (heap (BA_move_agent self f dr i a st))"
  "c \<noteq> a \<Longrightarrow> agents_of (heap (BA_move_agent self f dr i a st)) c = agents_of (heap st) c"
  "n < next_addr (heap st) \<Longrightarrow> arrays_of (heap (BA_move_agent self f dr i a st)) n = arrays_of (heap st) n"
  by (simp_all add: BA_move_agent_def Let_def set_position_frame set_fit_frame agent_clip_frame)

lemma BA_move_agent_position:
  "position (agents_of (heap (BA_move_agent self f dr i a st)) a)
     < next_addr (heap (BA_move_agent self f dr i a st))"
  by (simp add: BA_move_agent_def Let_def set_position_frame set_fit_frame agent_clip_frame)

lemma BA_update_agent_frame:
  assumes "BA_update_agent self f it dr (i, a) st = Inr st1"
  shows "next_addr (heap st) \<le> next_addr (heap st1)"
    and "c \<noteq> a \<Longrightarrow> c < next_addr (heap st) \<Longrightarrow> agents_of (heap st1) c = agents_of (heap st) c"
    and "n < next_addr (heap st) \<Longrightarrow> arrays_of (heap st1) n = arrays_of (heap st) n"
    and "local_best st1 = local_best st \<or> next_addr (heap st) \<le> local_best st1"
proof -
  let ?st6 = "BA_move_agent self f dr i a st"
  note H = BA_move_agent_heap [where st = st and self = self and f = f and dr = dr and i = i and a = a]
  have le: "next_addr (heap st) \<le> next_addr (heap ?st6)" by (rule H(1))
  consider (improve) "st1 = ?st6\<lparr>local_best := fst (deepcopy_agent a (heap ?st6)),
                          heap := snd (deepcopy_agent a (heap ?st6)),
                          pulse_rate := (pulse_rate ?st6)[i := r_hp self * (1 - exp (- 0.9 * real it))],
                          loudness := (loudness ?st6)[i := A_hp self * 0.9]\<rparr>"
    | (keep) "st1 = ?st6"
    using assms by (auto simp: BA_update_agent_step Let_def split: if_splits)
  then have "next_addr (heap st) \<le> next_addr (heap st1) \<and>
             (c \<noteq> a \<longrightarrow> c < next_addr (heap st) \<longrightarrow> agents_of (heap st1) c = agents_of (heap st) c) \<and>
             (n < next_addr (heap st) \<longrightarrow> arrays_of (heap st1) n = arrays_of (heap st) n) \<and>
             (local_best st1 = local_best st \<or> next_addr (heap st) \<le> local_best st1)"
  proof cases
    case improve
    then show ?thesis
      using le H(2) [where c = c] H(3) [where n = n]
      by (auto simp: deepcopy_agent_frame BA_move_agent_fields)
  next
    case keep
    then show ?thesis
      using le H(2) [where c = c] H(3) [where n = n] by (simp add: BA_move_agent_fields)
  qed
  then show "next_addr (heap st) \<le> next_addr (heap st1)"
    and "c \<noteq> a \<Longrightarrow> c < next_addr (heap st) \<Longrightarrow> agents_of (heap st1) c = agents_of (heap st) c"
    and "n < next_addr (heap st) \<Longrightarrow> arrays_of (heap st1) n = arrays_of (heap st) n"
    and "local_best st1 = local_best st \<or> next_addr (heap st) \<le> local_best st1"
    by simp_all
qed

lemma BA_update_agent_arrays:
  assumes "BA_update_agent self f it dr (i, a) st = Inr st1"
  shows "length (pulse_rate st1) = length (pulse_rate st)"
    and "j \<noteq> i \<Longrightarrow> pulse_rate st1 ! j = pulse_rate st ! j"
    and "length (loudness st1) = length (loudness st)"
    and "j \<noteq> i \<Longrightarrow> loudness st1 ! j = loudness st ! j"
    and "walked st1 = walked st @ (if p_uniform dr i > pulse_rate st ! i then [i] else [])"
  using assms
  by (auto simp: BA_update_agent_step Let_def BA_move_agent_fields split: if_splits)

lemma BA_update_loop_frame:
  assumes "for_each (BA_update_agent self f it dr) (enumerate k ys) st = Inr st1"
  shows "next_addr (heap st) \<le> next_addr (heap st1) \<and>
         (c \<notin> set ys \<longrightarrow> c < next_addr (heap st) \<longrightarrow> agents_of (heap st1) c = agents_of (heap st) c) \<and>
         (n < next_addr (heap st) \<longrightarrow> arrays_of (heap st1) n = arrays_of (heap st) n) \<and>
         (local_best st1 = local_best st \<or> next_addr (heap st) \<le> local_best st1)"
  using assms
proof (induction ys arbitrary: k st)
  case Nil
  then show ?case by simp
next
  case (Cons a ys)
  from Cons.prems obtain st2 where step: "BA_update_agent self f it dr (k, a) st = Inr st2"
    and rest: "for_each (BA_update_agent self f it dr) (enumerate (Suc k) ys) st2 = Inr st1"
    by (auto split: sum.splits)
  note F = BA_update_agent_frame [OF step]
  note IH = Cons.IH [OF rest]
  have 1: "next_addr (heap st) \<le> next_addr (heap st1)"
    using F(1) IH by simp
  have 2: "agents_of (heap st1) c = agents_of (heap st) c"
    if "c \<notin> set (a # ys)" and "c < next_addr (heap st)"
    using that F(1) F(2) [of c] IH by simp
  have 3: "arrays_of (heap st1) n = arrays_of (heap st) n" if "n < next_addr (heap st)"
    using that F(1) F(3) [of n] IH by simp
  have 4: "local_best st1 = local_best st \<or> next_addr (heap st) \<le> local_best st1"
    using F(1) F(4) IH by auto
  from 1 2 3 4 show ?case by blast
qed

lemma BA_update_loop_walked:
  assumes "for_each (BA_update_agent self f it dr) (enumerate k ys) st = Inr st1"
  shows "walked st1 = walked st @ filter (\<lambda>i. p_uniform dr i > pulse_rate st ! i) [k..<k + length ys]"
  using assms
proof (induction ys arbitrary: k st)
  case Nil
  then show ?case by simp
next
  case (Cons a ys)
  from Cons.prems obtain st2 where step: "BA_update_agent self f it dr (k, a) st = Inr st2"
    and rest: "for_each (BA_update_agent self f it dr) (enumerate (Suc k) ys) st2 = Inr st1"
    by (auto split: sum.splits)
  note A = BA_update_agent_arrays [OF step]
  have same: "filter (\<lambda>i. p_uniform dr i > pulse_rate st2 ! i) [Suc k..<Suc k + length ys]
                = filter (\<lambda>i. p_uniform dr i > pulse_rate st ! i) [Suc k..<Suc k + length ys]"
  proof (rule filter_cong [OF refl])
    fix x assume "x \<in> set [Suc k..<Suc k + length ys]"
    then have "x \<noteq> k" unfolding set_upt by simp
    then show "(pulse_rate st2 ! x < p_uniform dr x) = (pulse_rate st ! x < p_uniform dr x)"
      by (simp add: A(2))
  qed
  have upt: "[k..<k + length (a # ys)] = k # [Suc k..<Suc k + length ys]"
    by (subst upt_conv_Cons) simp_all
  have "walked st1 = walked st2 @ filter (\<lambda>i. p_uniform dr i > pulse_rate st ! i) [Suc k..<Suc k + length ys]"
    using Cons.IH [OF rest] same by simp
  then show ?case
    unfolding upt using A(5) by simp
qed

lemma BA_update_agent_improve:
  assumes step: "BA_update_agent self f it dr (i, a) st0 = Inr st1"
    and ab: "a \<noteq> local_best st0"
    and lb: "local_best st0 < next_addr (heap st0)"
    and al: "a < next_addr (heap st0)"
  shows "agents_of (heap st1) (local_best st0) = agents_of (heap st0) (local_best st0)"
    and "p_uniform dr i < loudness st0 ! i \<and> get_fit (heap st1) a < get_fit (heap st0) (local_best st0) \<Longrightarrow>
           next_addr (heap st0) \<le> local_best st1 \<and>
           get_fit (heap st1) (local_best st1) = get_fit (heap st1) a \<and>
           get_position (heap st1) (local_best st1) = get_position (heap st1) a \<and>
           pulse_rate st1 = (pulse_rate st0)[i := r_hp self * (1 - exp (- 0.9 * real it))] \<and>
           loudness st1 = (loudness st0)[i := A_hp self * 0.9]"
    and "\<not> (p_uniform dr i < loudness st0 ! i \<and> get_fit (heap st1) a < get_fit (heap st0) (local_best st0)) \<Longrightarrow>
           local_best st1 = local_best st0 \<and> pulse_rate st1 = pulse_rate st0 \<and> loudness st1 = loudness st0"
proof -
  let ?st6 = "BA_move_agent self f dr i a st0"
  let ?n6 = "next_addr (heap ?st6)"
  let ?cond6 = "p_uniform dr i < loudness ?st6 ! i \<and> get_fit (heap ?st6) a < get_fit (heap ?st6) (local_best ?st6)"
  let ?cond = "p_uniform dr i < loudness st0 ! i \<and> get_fit (heap st1) a < get_fit (heap st0) (local_best st0)"
  note H = BA_move_agent_heap [where st = st0 and self = self and f = f and dr = dr and i = i and a = a]
  have le: "next_addr (heap st0) \<le> ?n6" by (rule H(1))
  have best6: "agents_of (heap ?st6) (local_best st0) = agents_of (heap st0) (local_best st0)"
    using ab by (simp add: H(2))
  have pos6: "position (agents_of (heap ?st6) a) < ?n6"
    by (rule BA_move_agent_position)
  show frame: "agents_of (heap st1) (local_best st0) = agents_of (heap st0) (local_best st0)"
    using BA_update_agent_frame(2) [OF step, of "local_best st0"] ab lb by simp
  have cases: "(?cond6 \<and> st1 = ?st6\<lparr>local_best := fst (deepcopy_agent a (heap ?st6)),
                          heap := snd (deepcopy_agent a (heap ?st6)),
                          pulse_rate := (pulse_rate ?st6)[i := r_hp self * (1 - exp (- 0.9 * real it))],
                          loudness := (loudness ?st6)[i := A_hp self * 0.9]\<rparr>)
             \<or> (\<not> ?cond6 \<and> st1 = ?st6)"
    using step by (auto simp: BA_update_agent_step Let_def split: if_splits)
  have a_same: "agents_of (heap st1) a = agents_of (heap ?st6) a"
    using cases al le by (auto simp: deepcopy_agent_frame)
  have arr_same: "arrays_of (heap st1) (position (agents_of (heap ?st6) a))
                    = arrays_of (heap ?st6) (position (agents_of (heap ?st6) a))"
    using cases pos6 by (auto simp: deepcopy_agent_frame)
  have fit_a: "get_fit (heap st1) a = get_fit (heap ?st6) a"
    using a_same by (simp add: get_fit_def)
  have pos_a: "get_position (heap st1) a = get_position (heap ?st6) a"
    using a_same arr_same by (simp add: get_position_def)
  have cond_eq: "?cond6 \<longleftrightarrow> ?cond"
    using best6 fit_a by (simp add: BA_move_agent_fields get_fit_def)
  {
    assume c: ?cond
    then have st1: "st1 = ?st6\<lparr>local_best := fst (deepcopy_agent a (heap ?st6)),
                          heap := snd (deepcopy_agent a (heap ?st6)),
                          pulse_rate := (pulse_rate ?st6)[i := r_hp self * (1 - exp (- 0.9 * real it))],
                          loudness := (loudness ?st6)[i := A_hp self * 0.9]\<rparr>"
      using cases cond_eq by blast
    have lb1: "local_best st1 = Suc ?n6" by (simp add: st1 deepcopy_agent_frame)
    have copy: "agents_of (heap st1) (Suc ?n6) = (agents_of (heap ?st6) a)\<lparr>position := ?n6\<rparr>"
      and arr: "arrays_of (heap st1) ?n6 = get_position (heap ?st6) a"
      by (simp_all add: st1 deepcopy_agent_frame)
    have "next_addr (heap st0) \<le> local_best st1" using le lb1 by simp
    moreover have "get_fit (heap st1) (local_best st1) = get_fit (heap st1) a"
      using copy a_same by (simp add: lb1 get_fit_def)
    moreover have "get_position (heap st1) (local_best st1) = get_position (heap st1) a"
      using copy arr pos_a by (simp add: lb1 get_position_def)
    moreover have "pulse_rate st1 = (pulse_rate st0)[i := r_hp self * (1 - exp (- 0.9 * real it))]"
      and "loudness st1 = (loudness st0)[i := A_hp self * 0.9]"
      by (simp_all add: st1 BA_move_agent_fields)
    ultimately show "next_addr (heap st0) \<le> local_best st1 \<and>
           get_fit (heap st1) (local_best st1) = get_fit (heap st1) a \<and>
           get_position (heap st1) (local_best st1) = get_position (heap st1) a \<and>
           pulse_rate st1 = (pulse_rate st0)[i := r_hp self * (1 - exp (- 0.9 * real it))] \<and>
           loudness st1 = (loudness st0)[i := A_hp self * 0.9]"
      by simp
  }
  {
    assume "\<not> ?cond"
    then have "st1 = ?st6" using cases cond_eq by blast
    then show "local_best st1 = local_best st0 \<and> pulse_rate st1 = pulse_rate st0 \<and> loudness st1 = loudness st0"
      by (simp add: BA_move_agent_fields)
  }
qed

lemma BA_update_keeps_best:
  assumes upd: "BA_update self dr xs b f it fr ve lo pr s = Inr st"
    and nb: "b \<notin> set xs" and bl: "b < next_addr s" and pl: "position (agents_of s b) < next_addr s"
  shows "agents_of (heap st) b = agents_of s b" and "get_position (heap st) b = get_position s b"
    and "get_fit (heap st) b = get_fit s b" and "local_best st = b \<or> next_addr s \<le> local_best st"
proof -
  let ?st0 = "\<lparr>frequency = fr, velocity = ve, loudness = lo, pulse_rate = pr,
               local_best = b, walked = [], heap = s\<rparr>"
  from upd have loop: "for_each (BA_update_agent self f it dr) (enumerate 0 xs) ?st0 = Inr st"
    by (simp add: BA_update_def)
  note L = BA_update_loop_frame [OF loop, of b "position (agents_of s b)"]
  show obj: "agents_of (heap st) b = agents_of s b"
    using L nb bl by simp
  have arr: "arrays_of (heap st) (position (agents_of s b)) = arrays_of s (position (agents_of s b))"
    using L pl by simp
  show "get_position (heap st) b = get_position s b"
    using obj arr by (simp add: get_position_def)
  show "get_fit (heap st) b = get_fit s b"
    using obj by (simp add: get_fit_def)
  show "local_best st = b \<or> next_addr s \<le> local_best st"
    using L by simp
qed

lemma BA_apply_update_keeps_best:
  assumes "BA_apply_update self drs f t ((fr, ve, lo, pr), sp, s) = Inr (x1, sp1, s1)"
    and "best_agent sp \<notin> set (agents sp)" and "best_agent sp < next_addr s"
    and "position (agents_of s (best_agent sp)) < next_addr s"
  shows "sp1 = sp" and "agents_of s1 (best_agent sp) = agents_of s (best_agent sp)"
    and "get_position s1 (best_agent sp) = get_position s (best_agent sp)"
    and "get_fit s1 (best_agent sp) = get_fit s (best_agent sp)"
proof -
  from assms(1) obtain st
    where st: "BA_update self (drs t) (agents sp) (best_agent sp) f t fr ve lo pr s = Inr st"
      and eq: "sp1 = sp" "s1 = heap st"
    by (auto simp: BA_apply_update_def split: sum.splits)
  note K = BA_update_keeps_best [OF st assms(2,3,4)]
  show "sp1 = sp" by (rule eq)
  show "agents_of s1 (best_agent sp) = agents_of s (best_agent sp)"
    and "get_position s1 (best_agent sp) = get_position s (best_agent sp)"
    and "get_fit s1 (best_agent sp) = get_fit s (best_agent sp)"
    using K by (simp_all add: eq)
qed

lemma BA_update_walked:
  assumes "BA_update self dr xs b f it fr ve lo pr s = Inr st"
  shows "walked st = filter (\<lambda>i. p_uniform dr i > pr ! i) [0..<length xs]"
proof -
  from assms have "for_each (BA_update_agent self f it dr) (enumerate 0 xs)
      \<lparr>frequency = fr, velocity = ve, loudness = lo, pulse_rate = pr,
       local_best = b, walked = [], heap = s\<rparr> = Inr st"
    by (simp add: BA_update_def)
  from BA_update_loop_walked [OF this] show ?thesis by simp
qed

lemma BA_update_succeeds:
  assumes "length xs \<le> length fr" "length xs \<le> length ve" "length xs \<le> length lo" "length xs \<le> length pr"
  shows "\<exists>st. BA_update self dr xs b f it fr ve lo pr s = Inr st"
proof -
  have "k + length ys \<le> length (frequency st) \<Longrightarrow> k + length ys \<le> length (velocity st) \<Longrightarrow>
        k + length ys \<le> length (loudness st) \<Longrightarrow> k + length ys \<le> length (pulse_rate st) \<Longrightarrow>
        \<exists>st1. for_each (BA_update_agent self f it dr) (enumerate k ys) st = Inr st1" for k ys st
  proof (induction ys arbitrary: k st)
    case Nil
    then show ?case by simp
  next
    case (Cons a ys)
    have "\<exists>st2. BA_update_agent self f it dr (k, a) st = Inr st2"
      using Cons.prems by (simp add: BA_update_agent_step Let_def)
    then obtain st2 where st2: "BA_update_agent self f it dr (k, a) st = Inr st2" ..
    then have len: "length (frequency st2) = length (frequency st)"
      "length (velocity st2) = length (velocity st)"
      "length (loudness st2) = length (loudness st)"
      "length (pulse_rate st2) = length (pulse_rate st)"
      by (auto simp: BA_update_agent_step Let_def BA_move_agent_fields split: if_splits)
    have "\<exists>st1. for_each (BA_update_agent self f it dr) (enumerate (Suc k) ys) st2 = Inr st1"
      using Cons.prems len by (intro Cons.IH) simp_all
    then show ?case using st2 by simp
  qed
  from this [of 0 xs "\<lparr>frequency = fr, velocity = ve, loudness = lo, pulse_rate = pr,
       local_best = b, walked = [], heap = s\<rparr>"] assms
  show ?thesis by (simp add: BA_update_def)
qed

lemmas example_BA_simps =
  BA_update_agent_step BA_move_agent_def Let_def example_BA_self_def
  example_BA_draws_def example_store_def example_function_def example_BA_heap1_def
  example_BA_heap2_def BA_update_frequency_def BA_update_velocity_def BA_update_position_def
  nd_add_def nd_sub_def nd_scale_def nd_shift_def mean_def
  set_position_def set_fit_def agent_clip_by_bound_def clip_position_def new_array_def
  new_agent_def deepcopy_agent_def get_position_def get_fit_def fun_eq_iff

lemma example_BA_step0:
  "BA_update_agent example_BA_self example_function 0 example_BA_draws (0, 0)
     \<lparr>frequency = [0, 0], velocity = [[[0]], [[0]]], loudness = [1 / 4, 1 / 4],
      pulse_rate = [1, 1], local_best = 2, walked = [], heap = example_store\<rparr> =
   Inr \<lparr>frequency = [- 1, 0], velocity = [[[- 1]], [[0]]], loudness = [9 / 20, 1 / 4],
        pulse_rate = [0, 1], local_best = 9, walked = [], heap = example_BA_heap1\<rparr>"
  by (simp add: example_BA_simps)

lemma example_BA_step1:
  "BA_update_agent example_BA_self example_function 0 example_BA_draws (1, 1)
     \<lparr>frequency = [- 1, 0], velocity = [[[- 1]], [[0]]], loudness = [9 / 20, 1 / 4],
        pulse_rate = [0, 1], local_best = 9, walked = [], heap = example_BA_heap1\<rparr> =
   Inr \<lparr>frequency = [- 1, - 1], velocity = [[[- 1]], [[- 2]]], loudness = [9 / 20, 1 / 4],
        pulse_rate = [0, 1], local_best = 9, walked = [], heap = example_BA_heap2\<rparr>"
  by (simp add: example_BA_simps)

lemma example_BA_update:
  "BA_update example_BA_self example_BA_draws [0, 1] 2 example_function 0
     [0, 0] [[[0]], [[0]]] [1 / 4, 1 / 4] [1, 1] example_store =
   Inr \<lparr>frequency = [- 1, - 1], velocity = [[[- 1]], [[- 2]]], loudness = [9 / 20, 1 / 4],
        pulse_rate = [0, 1], local_best = 9, walked = [], heap = example_BA_heap2\<rparr>"
proof -
  have e: "enumerate 0 [0, 1 :: nat] = [(0, 0), (1, 1)]" by simp
  show ?thesis
    unfolding BA_update_def e by (simp only: for_each.simps example_BA_step0 example_BA_step1 sum.case)
qed

text \<open>
  C9. The update of the bat algorithm does not change the best agent that the caller passes,
  when that agent is an object of its own (not one of the agents of the list). Where the last
  statement of the loop body fires, for a draw below the loudness and a fitness below the
  tracked best, the local name is bound to a new object, a copy of the agent with an array of
  its own, and of the arrays the entries \<open>i\<close> of the pulse rates and of the loudnesses are
  written; where it does not fire, the local name and the two arrays stay as they are. In
  both cases the object the name referred to is left as it was, so that the space's best
  agent is the same after the call.
\<close>

theorem BA_update_leaves_best_agent:
  "(BA_update self dr xs b f it fr ve lo pr s = Inr st \<and>
    b \<notin> set xs \<and> b < next_addr s \<and> position (agents_of s b) < next_addr s \<longrightarrow>
      agents_of (heap st) b = agents_of s b \<and> get_position (heap st) b = get_position s b \<and>
      get_fit (heap st) b = get_fit s b \<and> (local_best st = b \<or> next_addr s \<le> local_best st)) \<and>
   (BA_update_agent self f it dr (i, a) st0 = Inr st1 \<and>
    a \<noteq> local_best st0 \<and> local_best st0 < next_addr (heap st0) \<and> a < next_addr (heap st0) \<longrightarrow>
      agents_of (heap st1) (local_best st0) = agents_of (heap st0) (local_best st0) \<and>
      (if p_uniform dr i < loudness st0 ! i \<and> get_fit (heap st1) a < get_fit (heap st0) (local_best st0)
       then next_addr (heap st0) \<le> local_best st1 \<and>
            get_fit (heap st1) (local_best st1) = get_fit (heap st1) a \<and>
            get_position (heap st1) (local_best st1) = get_position (heap st1) a \<and>
            pulse_rate st1 = (pulse_rate st0)[i := r_hp self * (1 - exp (- 0.9 * real it))] \<and>
            loudness st1 = (loudness st0)[i := A_hp self * 0.9]
       else local_best st1 = local_best st0 \<and> pulse_rate st1 = pulse_rate st0 \<and>
            loudness st1 = loudness st0)) \<and>
   (BA_apply_update self drs f t ((fr, ve, lo, pr), sp, s) = Inr (x1, sp1, s1) \<and>
    best_agent sp \<notin> set (agents sp) \<and> best_agent sp < next_addr s \<and>
    position (agents_of s (best_agent sp)) < next_addr s \<longrightarrow>
      sp1 = sp \<and> agents_of s1 (best_agent sp) = agents_of s (best_agent sp) \<and>
      get_position s1 (best_agent sp) = get_position s (best_agent sp) \<and>
      get_fit s1 (best_agent sp) = get_fit s (best_agent sp))"
proof (intro conjI impI)
  assume h: "BA_update self dr xs b f it fr ve lo pr s = Inr st \<and>
    b \<notin> set xs \<and> b < next_addr s \<and> position (agents_of s b) < next_addr s"
  then have u: "BA_update self dr xs b f it fr ve lo pr s = Inr st" and nb: "b \<notin> set xs"
    and bl: "b < next_addr s" and pl: "position (agents_of s b) < next_addr s"
    by simp_all
  note K = BA_update_keeps_best [OF u nb bl pl]
  show "agents_of (heap st) b = agents_of s b" by (rule K(1))
  show "get_position (heap st) b = get_position s b" by (rule K(2))
  show "get_fit (heap st) b = get_fit s b" by (rule K(3))
  show "local_best st = b \<or> next_addr s \<le> local_best st" by (rule K(4))
next
  assume h: "BA_update_agent self f it dr (i, a) st0 = Inr st1 \<and>
    a \<noteq> local_best st0 \<and> local_best st0 < next_addr (heap st0) \<and> a < next_addr (heap st0)"
  then have step: "BA_update_agent self f it dr (i, a) st0 = Inr st1" and ab: "a \<noteq> local_best st0"
    and lb: "local_best st0 < next_addr (heap st0)" and al: "a < next_addr (heap st0)"
    by simp_all
  note I = BA_update_agent_improve [OF step ab lb al]
  show "agents_of (heap st1) (local_best st0) = agents_of (heap st0) (local_best st0)"
    by (rule I(1))
  show "if p_uniform dr i < loudness st0 ! i \<and> get_fit (heap st1) a < get_fit (heap st0) (local_best st0)
       then next_addr (heap st0) \<le> local_best st1 \<and>
            get_fit (heap st1) (local_best st1) = get_fit (heap st1) a \<and>
            get_position (heap st1) (local_best st1) = get_position (heap st1) a \<and>
            pulse_rate st1 = (pulse_rate st0)[i := r_hp self * (1 - exp (- 0.9 * real it))] \<and>
            loudness st1 = (loudness st0)[i := A_hp self * 0.9]
       else local_best st1 = local_best st0 \<and> pulse_rate st1 = pulse_rate st0 \<and>
            loudness st1 = loudness st0"
    using I(2) I(3) by (simp only: split: if_split) blast
next
  assume h: "BA_apply_update self drs f t ((fr, ve, lo, pr), sp, s) = Inr (x1, sp1, s1) \<and>
    best_agent sp \<notin> set (agents sp) \<and> best_agent sp < next_addr s \<and>
    position (agents_of s (best_agent sp)) < next_addr s"
  then have u: "BA_apply_update self drs f t ((fr, ve, lo, pr), sp, s) = Inr (x1, sp1, s1)"
    and nb: "best_agent sp \<notin> set (agents sp)" and bl: "best_agent sp < next_addr s"
    and pl: "position (agents_of s (best_agent sp)) < next_addr s"
    by simp_all
  note K = BA_apply_update_keeps_best [OF u nb bl pl]
  show "sp1 = sp" by (rule K(1))
  show "agents_of s1 (best_agent sp) = agents_of s (best_agent sp)" by (rule K(2))
  show "get_position s1 (best_agent sp) = get_position s (best_agent sp)" by (rule K(3))
  show "get_fit s1 (best_agent sp) = get_fit s (best_agent sp)" by (rule K(4))
qed

lemma example_BA_apply_update:
  "BA_apply_update example_BA_self (\<lambda>t. example_BA_draws) example_function 0
     (([0, 0], [[[0]], [[0]]], [1 / 4, 1 / 4], [1, 1]), example_space, example_store) =
   Inr (([- 1, - 1], [[[- 1]], [[- 2]]], [9 / 20, 1 / 4], [0, 1]), example_space, example_BA_heap2)"
  by (simp add: BA_apply_update_def example_space_def example_BA_update [unfolded One_nat_def])

theorem BA_update_leaves_best_agent_witness:
  "BA_update example_BA_self example_BA_draws [0, 1] 2 example_function 0
     [0, 0] [[[0]], [[0]]] [1 / 4, 1 / 4] [1, 1] example_store =
   Inr \<lparr>frequency = [- 1, - 1], velocity = [[[- 1]], [[- 2]]], loudness = [9 / 20, 1 / 4],
        pulse_rate = [0, 1], local_best = 9, walked = [], heap = example_BA_heap2\<rparr> \<and>
   2 \<notin> set [0, 1 :: nat] \<and> 2 < next_addr example_store \<and>
   position (agents_of example_store 2) < next_addr example_store \<and>
   agents_of example_BA_heap2 2 = agents_of example_store 2 \<and>
   get_position example_BA_heap2 2 = get_position example_store 2 \<and>
   get_fit example_BA_heap2 2 = 100 \<and>
   BA_update_agent example_BA_self example_function 0 example_BA_draws (0, 0)
     \<lparr>frequency = [0, 0], velocity = [[[0]], [[0]]], loudness = [1 / 4, 1 / 4],
      pulse_rate = [1, 1], local_best = 2, walked = [], heap = example_store\<rparr> =
   Inr \<lparr>frequency = [- 1, 0], velocity = [[[- 1]], [[0]]], loudness = [9 / 20, 1 / 4],
        pulse_rate = [0, 1], local_best = 9, walked = [], heap = example_BA_heap1\<rparr> \<and>
   agents_of example_BA_heap1 2 = agents_of example_store 2 \<and>
   get_fit example_BA_heap1 9 = get_fit example_BA_heap1 0 \<and>
   get_position example_BA_heap1 9 = get_position example_BA_heap1 0 \<and>
   BA_apply_update example_BA_self (\<lambda>t. example_BA_draws) example_function 0
     (([0, 0], [[[0]], [[0]]], [1 / 4, 1 / 4], [1, 1]), example_space, example_store) =
   Inr (([- 1, - 1], [[[- 1]], [[- 2]]], [9 / 20, 1 / 4], [0, 1]), example_space, example_BA_heap2)"
  using BA_update_leaves_best_agent
    [where self = example_BA_self and dr = example_BA_draws and xs = "[0, 1]" and b = 2
       and f = example_function and it = 0 and fr = "[0, 0]" and ve = "[[[0]], [[0]]]"
       and lo = "[1 / 4, 1 / 4]" and pr = "[1, 1]" and s = example_store
       and st = "\<lparr>frequency = [- 1, - 1], velocity = [[[- 1]], [[- 2]]], loudness = [9 / 20, 1 / 4],
                  pulse_rate = [0, 1], local_best = 9, walked = [], heap = example_BA_heap2\<rparr>"
       and i = 0 and a = 0
       and ?st0.0 = "\<lparr>frequency = [0, 0], velocity = [[[0]], [[0]]], loudness = [1 / 4, 1 / 4],
                      pulse_rate = [1, 1], local_best = 2, walked = [], heap = example_store\<rparr>"
       and ?st1.0 = "\<lparr>frequency = [- 1, 0], velocity = [[[- 1]], [[0]]], loudness = [9 / 20, 1 / 4],
                      pulse_rate = [0, 1], local_best = 9, walked = [], heap = example_BA_heap1\<rparr>"
       and drs = "\<lambda>t. example_BA_draws" and t = 0 and sp = example_space
       and ?x1.0 = "([- 1, - 1], [[[- 1]], [[- 2]]], [9 / 20, 1 / 4], [0, 1])"
       and ?sp1.0 = example_space and ?s1.0 = example_BA_heap2]
    example_BA_update example_BA_step0 example_BA_apply_update
  by (simp add: example_space_def example_store_def example_BA_heap1_def example_BA_heap2_def
      get_fit_def get_position_def)

text \<open>
  C8. In a call of the update of the bat algorithm, the local random walk runs for the agent
  of index \<open>i\<close> exactly when the draw \<open>p\<close> is above the pulse rate \<open>i\<close> that the call received. So
  if every pulse rate is 1 and no draw is above 1, the walk runs for no agent, whatever the
  iteration; and the call returns whenever the four arrays have an entry per agent.
\<close>

theorem BA_walk_decided_by_pulse_rate:
  "(BA_update self dr xs b f it fr ve lo pr s = Inr st \<longrightarrow>
      walked st = filter (\<lambda>i. pr ! i < p_uniform dr i) [0..<length xs]) \<and>
   (BA_update self dr xs b f it fr ve lo pr s = Inr st \<and>
    (\<forall>i<length xs. pr ! i = 1) \<and> (\<forall>i<length xs. p_uniform dr i \<le> 1) \<longrightarrow> walked st = []) \<and>
   (length xs \<le> length fr \<and> length xs \<le> length ve \<and> length xs \<le> length lo \<and>
    length xs \<le> length pr \<longrightarrow> (\<exists>st2. BA_update self dr xs b f it fr ve lo pr s = Inr st2))"
proof (intro conjI impI)
  assume "BA_update self dr xs b f it fr ve lo pr s = Inr st"
  then show "walked st = filter (\<lambda>i. pr ! i < p_uniform dr i) [0..<length xs]"
    by (rule BA_update_walked)
next
  assume h: "BA_update self dr xs b f it fr ve lo pr s = Inr st \<and>
    (\<forall>i<length xs. pr ! i = 1) \<and> (\<forall>i<length xs. p_uniform dr i \<le> 1)"
  then have "BA_update self dr xs b f it fr ve lo pr s = Inr st" by simp
  then have "walked st = filter (\<lambda>i. pr ! i < p_uniform dr i) [0..<length xs]"
    by (rule BA_update_walked)
  also have "\<dots> = []"
    using h by (auto simp: filter_empty_conv)
  finally show "walked st = []" .
next
  assume "length xs \<le> length fr \<and> length xs \<le> length ve \<and> length xs \<le> length lo \<and>
    length xs \<le> length pr"
  then show "\<exists>st2. BA_update self dr xs b f it fr ve lo pr s = Inr st2"
    by (intro BA_update_succeeds) simp_all
qed

theorem BA_walk_decided_by_pulse_rate_witness:
  "BA_update example_BA_self example_BA_draws [0, 1] 2 example_function 0
     [0, 0] [[[0]], [[0]]] [1 / 4, 1 / 4] [1, 1] example_store =
   Inr \<lparr>frequency = [- 1, - 1], velocity = [[[- 1]], [[- 2]]], loudness = [9 / 20, 1 / 4],
        pulse_rate = [0, 1], local_best = 9, walked = [], heap = example_BA_heap2\<rparr> \<and>
   [1, 1 :: real] ! 0 = 1 \<and> [1, 1 :: real] ! 1 = 1 \<and>
   p_uniform example_BA_draws 0 \<le> 1 \<and> p_uniform example_BA_draws 1 \<le> 1 \<and>
   length [0, 1 :: nat] \<le> length [0, 0 :: real] \<and>
   walked \<lparr>frequency = [- 1, - 1], velocity = [[[- 1]], [[- 2]]], loudness = [9 / 20, 1 / 4],
        pulse_rate = [0, 1], local_best = 9, walked = [], heap = example_BA_heap2\<rparr> = []"
  using BA_walk_decided_by_pulse_rate
    [where self = example_BA_self and dr = example_BA_draws and xs = "[0, 1]" and b = 2
       and f = example_function and it = 0 and fr = "[0, 0]" and ve = "[[[0]], [[0]]]"
       and lo = "[1 / 4, 1 / 4]" and pr = "[1, 1]" and s = example_store
       and st = "\<lparr>frequency = [- 1, - 1], velocity = [[[- 1]], [[- 2]]], loudness = [9 / 20, 1 / 4],
                  pulse_rate = [0, 1], local_best = 9, walked = [], heap = example_BA_heap2\<rparr>"]
    example_BA_update
  by (simp add: example_BA_draws_def less_Suc_eq)

subsection \<open>The other updates and the best agent\<close>

text \<open>The updates of the gravitational search algorithm and of the satin bowerbird optimizer
  leave the fitness of the space's best agent as it is, as the one of the bat algorithm does.\<close>

lemma GSA_apply_update_keeps_best_fit:
  assumes "GSA_apply_update self ext t (vel, sp, s) = Inr (vel1, sp1, s1)"
  shows "best_agent sp1 = best_agent sp" and "set (agents sp1) = set (agents sp)"
    and "get_fit s1 c = get_fit s c"
proof -
  from assms obtain xs1 where u: "GSA_update self (ext t) (agents sp) vel t s = Inr (xs1, vel1, s1)"
    and sp1: "sp1 = sp\<lparr>agents := xs1\<rparr>"
    by (auto simp: GSA_apply_update_def split: sum.splits)
  note U = GSA_update_Inr [OF u]
  show "best_agent sp1 = best_agent sp" by (simp add: sp1)
  show "set (agents sp1) = set (agents sp)" by (simp add: sp1 U(1))
  show "get_fit s1 c = get_fit s c" using U(4) by simp
qed

lemma SBO_update_variable_agents:
  assumes "SBO_update_variable self dr xs b sigma probs k a j s = Inr s1"
  shows "agents_of s1 = agents_of s"
  using assms
  by (auto simp: SBO_update_variable_def Let_def split: if_splits)

lemma SBO_update_variables_agents:
  assumes "for_each (SBO_update_variable self dr xs b sigma probs k a) js s = Inr s1"
  shows "agents_of s1 = agents_of s"
  using assms
proof (induction js arbitrary: s)
  case Nil
  then show ?case by simp
next
  case (Cons j js)
  from Cons.prems obtain s2 where "SBO_update_variable self dr xs b sigma probs k a j s = Inr s2"
    and "for_each (SBO_update_variable self dr xs b sigma probs k a) js s2 = Inr s1"
    by (auto split: sum.splits)
  then show ?case
    using Cons.IH [of s2] SBO_update_variable_agents [of self dr xs b sigma probs k a j s s2] by simp
qed

lemma SBO_update_agent_others:
  assumes "SBO_update_agent self dr xs b f sigma probs (k, a) s = Inr s1" and "c \<noteq> a"
  shows "agents_of s1 c = agents_of s c"
proof -
  from assms(1) obtain s2
    where loop: "for_each (SBO_update_variable self dr xs b sigma probs k a)
                   [0..<length (get_position s a)] s = Inr s2"
      and s1: "s1 = set_fit a (f (get_position (agent_clip_by_bound a s2) a)) (agent_clip_by_bound a s2)"
    by (auto simp: SBO_update_agent_def Let_def split: sum.splits)
  have "agents_of s1 c = agents_of s2 c"
    using assms(2) by (simp add: s1 set_fit_frame agent_clip_frame)
  then show ?thesis
    using SBO_update_variables_agents [OF loop] by simp
qed

lemma SBO_update_loop_others:
  assumes "for_each (SBO_update_agent self dr xs b f sigma probs) (enumerate k ys) s = Inr s1"
    and "c \<notin> set ys"
  shows "agents_of s1 c = agents_of s c"
  using assms
proof (induction ys arbitrary: k s)
  case Nil
  then show ?case by simp
next
  case (Cons a ys)
  from Cons.prems obtain s2 where step: "SBO_update_agent self dr xs b f sigma probs (k, a) s = Inr s2"
    and rest: "for_each (SBO_update_agent self dr xs b f sigma probs) (enumerate (Suc k) ys) s2 = Inr s1"
    by (auto split: sum.splits)
  have "agents_of s2 c = agents_of s c"
    using SBO_update_agent_others [OF step] Cons.prems(2) by simp
  moreover have "agents_of s1 c = agents_of s2 c"
    using Cons.IH [OF rest] Cons.prems(2) by simp
  ultimately show ?case by simp
qed

lemma SBO_apply_update_keeps_best_fit:
  assumes "SBO_apply_update self drs f t (sigma, sp, s) = Inr (sigma1, sp1, s1)"
    and "best_agent sp \<notin> set (agents sp)"
  shows "sp1 = sp" and "get_fit s1 (best_agent sp) = get_fit s (best_agent sp)"
proof -
  from assms(1) have u: "SBO_update self (drs t) (agents sp) (best_agent sp) f sigma s = Inr s1"
    and sp1: "sp1 = sp"
    by (auto simp: SBO_apply_update_def split: sum.splits)
  show "sp1 = sp" by (rule sp1)
  from u have "for_each (SBO_update_agent self (drs t) (agents sp) (best_agent sp) f sigma
                  (SBO_probs (map (get_fit s) (agents sp)))) (enumerate 0 (agents sp)) s = Inr s1"
    by (simp add: SBO_update_def Let_def)
  from SBO_update_loop_others [OF this assms(2)]
  show "get_fit s1 (best_agent sp) = get_fit s (best_agent sp)"
    by (simp add: get_fit_def)
qed

subsection \<open>The run methods\<close>

lemma getattr_update:
  "getattr GSA ''_update'' = Inr Optimizer_update_m"
  "getattr BA ''_update'' = Inr Optimizer_update_m"
  "getattr SBO ''_update'' = Inr Optimizer_update_m"
  "getattr GSA ''update'' = Inr GSA_update_m"
  "getattr BA ''update'' = Inr BA_update_m"
  "getattr SBO ''update'' = Inr SBO_update_m"
  by (simp_all add: getattr_def)

lemma GSA_call_update_fails: "GSA_call_update self ext t w = Inl BuiltinTypeError"
  by (simp add: GSA_call_update_def getattr_update Optimizer_update_def)

lemma BA_call_update_fails: "BA_call_update self dr f t w = Inl BuiltinTypeError"
  by (simp add: BA_call_update_def getattr_update Optimizer_update_def)

lemma SBO_call_update_fails: "SBO_call_update self dr f t w = Inl BuiltinTypeError"
  by (simp add: SBO_call_update_def getattr_update Optimizer_update_def)

lemma run_loop_first_update_fails:
  assumes "0 < n" and "upd 0 (fst w) = Inl e"
  shows "run_loop upd ev sbo n w = Inl e"
proof -
  have "[0..<nat n] = 0 # [1..<nat n]"
    using assms(1) by (simp add: upt_conv_Cons)
  then show ?thesis
    using assms(2) by (cases w) (simp add: run_loop_def run_iteration_def)
qed

lemma run_loop_no_iteration:
  assumes "n \<le> 0"
  shows "run_loop upd ev sbo n w = Inr w"
  using assms by (simp add: run_loop_def)

lemma GSA_run_fails:
  assumes "0 < n_iterations sp"
  shows "GSA_run self ext sp f sbo hook s = Inl BuiltinTypeError"
  using assms
  by (simp add: GSA_run_def call_evaluate_eq Let_def run_loop_first_update_fails GSA_call_update_fails)

lemma BA_run_fails:
  assumes "0 < n_iterations sp"
  shows "BA_run self dr fr0 lo0 pr0 sp f sbo hook s = Inl BuiltinTypeError"
  using assms
  by (simp add: BA_run_def call_evaluate_eq Let_def run_loop_first_update_fails BA_call_update_fails)

lemma SBO_run_fails:
  assumes "0 < n_iterations sp"
  shows "SBO_run self dr sp f sbo hook s = Inl BuiltinTypeError"
  using assms
  by (simp add: SBO_run_def call_evaluate_eq Let_def run_loop_first_update_fails SBO_call_update_fails)

lemma GSA_run_no_iteration:
  assumes "n_iterations sp \<le> 0"
  shows "GSA_run self ext sp f sbo hook s =
           Inr ((replicate (n_agents sp) (nd_zeros (n_variables sp) (n_dimensions sp)), sp,
                 Optimizer_evaluate hook sp f s), [])"
  using assms by (simp add: GSA_run_def call_evaluate_eq Let_def run_loop_no_iteration)

lemma SBO_run_no_iteration:
  assumes "n_iterations sp \<le> 0"
  shows "\<exists>sigma. SBO_run self dr sp f sbo hook s = Inr ((sigma, sp, Optimizer_evaluate hook sp f s), [])"
  using assms by (simp add: SBO_run_def call_evaluate_eq Let_def run_loop_no_iteration)

lemma BA_run_no_iteration:
  assumes "n_iterations sp \<le> 0"
  shows "\<exists>x. BA_run self dr fr0 lo0 pr0 sp f sbo hook s = Inr ((x, sp, Optimizer_evaluate hook sp f s), [])"
  using assms by (simp add: BA_run_def call_evaluate_eq Let_def run_loop_no_iteration)

text \<open>When every update call returns, the loop appends one snapshot per iteration.\<close>

lemma run_loop_length:
  assumes "run_loop upd ev sbo n w = Inr w1"
  shows "length (snd w1) = length (snd w) + nat n"
proof -
  have "for_each (run_iteration upd ev sbo) ts w = Inr w1 \<Longrightarrow> length (snd w1) = length (snd w) + length ts"
    for ts
  proof (induction ts arbitrary: w)
    case Nil
    then show ?case by simp
  next
    case (Cons t ts)
    from Cons.prems obtain w2 where w2: "run_iteration upd ev sbo t w = Inr w2"
      and rest: "for_each (run_iteration upd ev sbo) ts w2 = Inr w1"
      by (auto split: sum.splits)
    from w2 have "length (snd w2) = Suc (length (snd w))"
      by (auto simp: run_iteration_def dump_def split: sum.splits prod.splits)
    with Cons.IH [OF rest] show ?case by simp
  qed
  from this [of "[0..<nat n]"] assms show ?thesis
    by (simp add: run_loop_def)
qed

text \<open>
  C3, which the code does not meet. The \<^verbatim>\<open>run\<close> methods call \<^verbatim>\<open>self._update(...)\<close>, and the
  algorithms bind their method under the name \<^verbatim>\<open>update\<close>: the lookup of \<^verbatim>\<open>_update\<close> ends in
  the base class, whose function takes no argument, and the call raises.
\<close>

theorem update_lookup_reaches_base:
  "getattr GSA ''_update'' = Inr Optimizer_update_m \<and>
   getattr BA ''_update'' = Inr Optimizer_update_m \<and>
   getattr SBO ''_update'' = Inr Optimizer_update_m \<and>
   getattr GSA ''update'' = Inr GSA_update_m \<and>
   getattr BA ''update'' = Inr BA_update_m \<and>
   getattr SBO ''update'' = Inr SBO_update_m \<and>
   GSA_call_update gsa ext t w1 = Inl BuiltinTypeError \<and>
   BA_call_update ba dr1 f t w2 = Inl BuiltinTypeError \<and>
   SBO_call_update sbo dr2 f t w3 = Inl BuiltinTypeError"
  by (simp add: getattr_update GSA_call_update_fails BA_call_update_fails SBO_call_update_fails)

text \<open>
  C2, which the code does not meet. On a space of one iteration, each of the three \<^verbatim>\<open>run\<close>
  methods raises in the update call of its first iteration and returns no history.
\<close>

theorem run_aborts_in_first_iteration:
  "n_iterations example_space = 1 \<and>
   GSA_run \<lparr>G_hp = 2\<rparr> (\<lambda>t. example_GSA_ext) example_space example_function False None example_store =
     Inl BuiltinTypeError \<and>
   SBO_run example_SBO_self (\<lambda>t. example_SBO_draws) example_space example_function False None
     example_store = Inl BuiltinTypeError \<and>
   BA_run example_BA_self (\<lambda>t. example_BA_draws) [1, 1] [1 / 4, 1 / 4] [1, 1] example_space
     example_function False None example_store = Inl BuiltinTypeError"
  by (simp add: GSA_run_fails SBO_run_fails BA_run_fails example_space_def)

end
